theory Spec2Isabelle
  imports Complex_Main "HOL-Library.Word"
begin

section \<open>The listing renderer of REDasm (listingrenderer.cpp)\<close>

text \<open>
  The theory embeds \<^verbatim>\<open>src/redasm/disassembler/listing/listingrenderer.cpp\<close>.
  Every member function of \<^verbatim>\<open>ListingRenderer\<close> becomes a function that takes the
  cursor (\<^verbatim>\<open>RendererFormat\<close>) and the renderer's state and returns both, updated.
  The two pure virtual members \<^verbatim>\<open>renderText\<close> and \<^verbatim>\<open>fontUnit\<close> are the drawing
  backend: a call of \<^verbatim>\<open>renderText\<close> appends a snapshot of the cursor to the list of
  drawn fragments, a call of \<^verbatim>\<open>fontUnit\<close> is counted. The printer's callbacks are
  folds over the sequence of values the printer delivers.
\<close>

subsection \<open>Data\<close>

type_synonym size_t = "64 word"
type_synonym address_t = "64 word"

text \<open>
  Modelled from the spec: the header listingrenderer.h with \<^verbatim>\<open>struct RendererFormat\<close>
  is not part of the sources. The fields are those the code reads and writes. The
  coordinates are C++ doubles; they are kept in an arbitrary ordered number type \<open>'n\<close>
  (rounding is not modelled; the examples use the reals). \<^verbatim>\<open>text\<close> is called \<open>text_rf\<close>, \<^verbatim>\<open>userdata\<close> is the
  caller's pointer as a number.
\<close>

record 'n RendererFormat =
  x :: 'n
  y :: 'n
  fontwidth :: 'n
  fontheight :: 'n
  style :: string
  text_rf :: string
  userdata :: nat

text \<open>
  Modelled from the spec: the declaration of the member \<^verbatim>\<open>m_commentcolumn\<close> is in the
  missing header; the specification calls it a single integer, and the constructor sets
  it to 0. It is an \<open>int\<close> here (its range is not modelled). An integer member makes
  \<^verbatim>\<open>m_commentcolumn = rf->x\<close> a conversion of a double to an integer, which drops the
  fraction: \<open>to_integer\<close>. In \<^verbatim>\<open>rf->x > m_commentcolumn\<close> and in
  \<^verbatim>\<open>(m_commentcolumn + INDENT_WIDTH) * rf->fontwidth\<close> the integer is converted to the
  cursor's number type.

  The other two fields are the effects on the backend: the fragments handed to
  \<^verbatim>\<open>renderText\<close>, in order, and the number of calls of \<^verbatim>\<open>fontUnit\<close>.
\<close>

record 'n ListingRenderer =
  m_commentcolumn :: int
  drawn :: "'n RendererFormat list"
  fontqueries :: nat

definition to_integer :: "('n::floor_ceiling) \<Rightarrow> int" where
  "to_integer v = (if 0 \<le> v then \<lfloor>v\<rfloor> else \<lceil>v\<rceil>)"

text \<open>
  Modelled from the spec: \<^verbatim>\<open>ListingItem\<close>, \<^verbatim>\<open>Segment\<close>, \<^verbatim>\<open>Symbol\<close>, \<^verbatim>\<open>Instruction\<close> and
  \<^verbatim>\<open>Operand\<close> are declared outside the sources. An item is a numeric kind and an
  address; an instruction has a mnemonic, a set of flags and its comments in order; an
  operand has an index, a type and the answer of \<^verbatim>\<open>isNumeric()\<close>.
\<close>

record ListingItem =
  kind :: nat
  address :: address_t

record Segment =
  name :: string

record Symbol =
  symname :: string

datatype InstructionTypes = Invalid | Stop | Nop | Jump | Call | Conditional | Other nat

record Instruction =
  mnemonic :: string
  flags :: "InstructionTypes set"
  comments :: "string list"

datatype OperandTypes = Register | Memory | Displacement | Immediate

record Operand =
  index :: int
  optypes :: "OperandTypes set"
  numeric :: bool

definition isInvalid :: "Instruction \<Rightarrow> bool" where
  "isInvalid instruction = (Invalid \<in> flags instruction)"

definition instruction_is :: "Instruction \<Rightarrow> InstructionTypes \<Rightarrow> bool" where
  "instruction_is instruction t = (t \<in> flags instruction)"

definition operand_is :: "Operand \<Rightarrow> OperandTypes \<Rightarrow> bool" where
  "operand_is operand t = (t \<in> optypes operand)"

definition isNumeric :: "Operand \<Rightarrow> bool" where
  "isNumeric operand = numeric operand"

definition item_is :: "ListingItem \<Rightarrow> nat \<Rightarrow> bool" where
  "item_is item t = (kind item = t)"

text \<open>
  The collaborators of the renderer, as the code uses them: the document
  (\<^verbatim>\<open>size\<close>, \<^verbatim>\<open>itemAt\<close>, \<^verbatim>\<open>segment\<close>, \<^verbatim>\<open>symbol\<close>, \<^verbatim>\<open>instruction\<close>; a segment and a
  symbol pointer may be null), the printer (each operation gives the arguments of its
  callback's calls, in order), the format (\<^verbatim>\<open>bits\<close>), the function \<^verbatim>\<open>REDasm::hex\<close>, the
  values \<^verbatim>\<open>fontUnit\<close> answers, and the three enumerators of \<^verbatim>\<open>ListingItem\<close> that
  \<^verbatim>\<open>render\<close> tests. None of them is defined in the sources, so they are parameters.
  The document's \<^verbatim>\<open>instruction\<close> always answers with an instruction, as in the
  specification's interface; the code dereferences the pointer without a test.
\<close>

record 'n Env =
  doc_size :: size_t
  itemAt :: "size_t \<Rightarrow> ListingItem"
  doc_segment :: "address_t \<Rightarrow> Segment option"
  doc_symbol :: "address_t \<Rightarrow> Symbol option"
  doc_instruction :: "address_t \<Rightarrow> Instruction"
  printer_segment :: "Segment option \<Rightarrow> string list"
  printer_function :: "Symbol option \<Rightarrow> (string \<times> string \<times> string) list"
  printer_out :: "Instruction \<Rightarrow> (Operand \<times> string \<times> string) list"
  bits :: nat
  hex :: "address_t \<Rightarrow> nat \<Rightarrow> bool \<Rightarrow> string"
  font :: "'n \<times> 'n"
  SegmentItem :: nat
  FunctionItem :: nat
  InstructionItem :: nat

definition INDENT_WIDTH :: nat where
  "INDENT_WIDTH = 2"

definition INDENT_COMMENT :: nat where
  "INDENT_COMMENT = 10"

definition HEX_ADDRESS :: "'n Env \<Rightarrow> address_t \<Rightarrow> string" where
  "HEX_ADDRESS env a = hex env a (bits env) False"

subsection \<open>The backend\<close>

type_synonym 'n cursor = "'n RendererFormat \<times> 'n ListingRenderer"

definition renderText :: "'n RendererFormat \<Rightarrow> 'n ListingRenderer \<Rightarrow> 'n ListingRenderer" where
  "renderText rf st = st\<lparr>drawn := drawn st @ [rf]\<rparr>"

definition fontUnit :: "'n Env \<Rightarrow> 'n ListingRenderer \<Rightarrow> ('n \<times> 'n) \<times> 'n ListingRenderer" where
  "fontUnit env st = (font env, st\<lparr>fontqueries := Suc (fontqueries st)\<rparr>)"

text \<open>\<^verbatim>\<open>measureString\<close>: asks the backend for the font's width, then \<^verbatim>\<open>s.size() * w\<close>.\<close>

definition measureString ::
  "('n::linordered_semidom) Env \<Rightarrow> string \<Rightarrow> 'n ListingRenderer \<Rightarrow> 'n \<times> 'n ListingRenderer" where
  "measureString env s st =
     (let (wh, st1) = fontUnit env st
      in (of_nat (length s) * fst wh, st1))"

text \<open>The step every routine ends with: \<^verbatim>\<open>rf->x += this->measureString(rf->text)\<close>.\<close>

definition advance :: "('n::linordered_semidom) Env \<Rightarrow> string \<Rightarrow> 'n cursor \<Rightarrow> 'n cursor" where
  "advance env s c =
     (let (rf, st) = c; (w, st1) = measureString env s st
      in (rf\<lparr>x := x rf + w\<rparr>, st1))"

subsection \<open>The layout routines\<close>

definition renderIndent :: "('n::linordered_semidom) Env \<Rightarrow> nat \<Rightarrow> 'n cursor \<Rightarrow> 'n cursor" where
  "renderIndent env n c =
     (let (rf, st) = c;
          rf1 = rf\<lparr>style := [], text_rf := replicate (n * INDENT_WIDTH) CHR '' ''\<rparr>
      in advance env (text_rf rf1) (rf1, renderText rf1 st))"

definition renderAddressIndent ::
  "('n::linordered_semidom) Env \<Rightarrow> ListingItem \<Rightarrow> 'n cursor \<Rightarrow> 'n cursor" where
  "renderAddressIndent env item c =
     (let (rf, st) = c;
          count = bits env div 4;
          count = (case doc_segment env (address item) of
                     Some segment \<Rightarrow> count + length (name segment)
                   | None \<Rightarrow> count);
          rf1 = rf\<lparr>style := [], text_rf := replicate (count + INDENT_WIDTH) CHR '' ''\<rparr>
      in advance env (text_rf rf1) (rf1, renderText rf1 st))"

text \<open>The callback of \<^verbatim>\<open>renderSegment\<close>, called once for each line of the printer.\<close>

definition segment_cb :: "'n cursor \<Rightarrow> string \<Rightarrow> 'n cursor" where
  "segment_cb c line =
     (let (rf, st) = c;
          rf1 = rf\<lparr>style := ''segment_fg'', text_rf := line\<rparr>
      in (rf1, renderText rf1 st))"

definition renderSegment :: "'n Env \<Rightarrow> ListingItem \<Rightarrow> 'n cursor \<Rightarrow> 'n cursor" where
  "renderSegment env item c =
     foldl segment_cb c (printer_segment env (doc_segment env (address item)))"

text \<open>The callback of \<^verbatim>\<open>renderFunction\<close>, with the three parts of the printer.\<close>

definition function_cb ::
  "('n::linordered_semidom) Env \<Rightarrow> 'n cursor \<Rightarrow> string \<times> string \<times> string \<Rightarrow> 'n cursor" where
  "function_cb env c parts =
     (let (rf, st) = c; (pre, sym, post) = parts;
          rf1 = rf\<lparr>style := ''function_fg''\<rparr>;
          (rf2, st2) =
            (if pre \<noteq> [] then
               (let rfp = rf1\<lparr>text_rf := pre\<rparr>
                in advance env pre (rfp, renderText rfp st))
             else (rf1, st));
          rf3 = rf2\<lparr>text_rf := sym\<rparr>;
          st3 = renderText rf3 st2
      in if post \<noteq> [] then
           (let (rf4, st4) = advance env sym (rf3, st3);
                rf5 = rf4\<lparr>text_rf := post\<rparr>
            in (rf5, renderText rf5 st4))
         else (rf3, st3))"

definition renderFunction ::
  "('n::linordered_semidom) Env \<Rightarrow> ListingItem \<Rightarrow> 'n cursor \<Rightarrow> 'n cursor" where
  "renderFunction env item c =
     foldl (function_cb env) (renderAddressIndent env item c)
       (printer_function env (doc_symbol env (address item)))"

definition renderAddress ::
  "('n::linordered_semidom) Env \<Rightarrow> ListingItem \<Rightarrow> 'n cursor \<Rightarrow> 'n cursor" where
  "renderAddress env item c =
     (let (rf, st) = c;
          rf1 = rf\<lparr>style := ''address_fg'',
                   text_rf := (case doc_segment env (address item) of
                                 Some segment \<Rightarrow> name segment
                               | None \<Rightarrow> ''unk'')
                              @ '':'' @ HEX_ADDRESS env (address item)\<rparr>
      in renderIndent env 1 (advance env (text_rf rf1) (rf1, renderText rf1 st)))"

definition mnemonic_style :: "Instruction \<Rightarrow> string \<Rightarrow> string" where
  "mnemonic_style instruction old =
     (if isInvalid instruction then ''instruction_invalid''
      else if instruction_is instruction Stop then ''instruction_stop''
      else if instruction_is instruction Nop then ''instruction_nop''
      else if instruction_is instruction Call then ''instruction_call''
      else if instruction_is instruction Jump then
        (if instruction_is instruction Conditional then ''instruction_jmp_c''
         else ''instruction_jmp'')
      else old)"

definition renderMnemonic ::
  "('n::linordered_semidom) Env \<Rightarrow> Instruction \<Rightarrow> 'n cursor \<Rightarrow> 'n cursor" where
  "renderMnemonic env instruction c =
     (let (rf, st) = c;
          rf1 = rf\<lparr>style := mnemonic_style instruction (style rf)\<rparr>;
          rf2 = rf1\<lparr>text_rf := mnemonic instruction @ '' ''\<rparr>
      in advance env (text_rf rf2) (rf2, renderText rf2 st))"

definition operand_style :: "Operand \<Rightarrow> string \<Rightarrow> string" where
  "operand_style operand old =
     (if isNumeric operand then
        (if operand_is operand Memory then ''memory_fg'' else ''immediate_fg'')
      else if operand_is operand Displacement then ''displacement_fg''
      else if operand_is operand Register then ''register_fg''
      else old)"

text \<open>The callback of \<^verbatim>\<open>renderOperands\<close>, called once for each operand of the printer.\<close>

definition operand_cb ::
  "('n::linordered_semidom) Env \<Rightarrow> 'n cursor \<Rightarrow> Operand \<times> string \<times> string \<Rightarrow> 'n cursor" where
  "operand_cb env c out =
     (let (rf, st) = c; (operand, opsize, opstr) = out;
          rf1 = rf\<lparr>text_rf := []\<rparr>;
          (rf2, st2) =
            (if index operand > 0 then
               (let rfs = rf1\<lparr>style := [], text_rf := '', ''\<rparr>;
                    sts = renderText rfs st
                in (rfs\<lparr>x := x rfs + fontwidth rfs * 2, text_rf := []\<rparr>, sts))
             else (rf1, st));
          rf3 = rf2\<lparr>style := operand_style operand (style rf2)\<rparr>;
          rf4 = (if opsize \<noteq> [] then rf3\<lparr>text_rf := opsize @ '' ''\<rparr> else rf3);
          rf5 = rf4\<lparr>text_rf := text_rf rf4 @ opstr\<rparr>
      in advance env (text_rf rf5) (rf5, renderText rf5 st2))"

definition renderOperands ::
  "('n::linordered_semidom) Env \<Rightarrow> Instruction \<Rightarrow> 'n cursor \<Rightarrow> 'n cursor" where
  "renderOperands env instruction c =
     foldl (operand_cb env) c (printer_out env instruction)"

text \<open>
  \<^verbatim>\<open>commentString\<close>: the loop writes the separator before every comment that differs
  from the first one (\<^verbatim>\<open>s != instruction->comments.front()\<close> compares the strings).
  The loop body runs only on a non-empty list, where \<^verbatim>\<open>front()\<close> is its head.
\<close>

definition commentString :: "Instruction \<Rightarrow> string" where
  "commentString instruction =
     (case comments instruction of
        [] \<Rightarrow> ''# ''
      | front # _ \<Rightarrow>
          foldl (\<lambda>ss s. (if s \<noteq> front then ss @ '' | '' else ss) @ s) ''# ''
            (comments instruction))"

definition renderComments ::
  "('n::linordered_idom) Env \<Rightarrow> Instruction \<Rightarrow> 'n cursor \<Rightarrow> 'n cursor" where
  "renderComments env instruction c =
     (let (rf, st) = c;
          rf1 = rf\<lparr>x := of_int (m_commentcolumn st + int INDENT_WIDTH) * fontwidth rf,
                   style := ''comment_fg'',
                   text_rf := commentString instruction\<rparr>
      in (rf1, renderText rf1 st))"

text \<open>
  \<^verbatim>\<open>renderInstruction\<close>. \<open>instruction_x\<close> is the cursor after the address, the mnemonic
  and the operands, where the comment column is updated.
\<close>

definition instruction_x ::
  "('n::linordered_semidom) Env \<Rightarrow> ListingItem \<Rightarrow> 'n cursor \<Rightarrow> 'n cursor" where
  "instruction_x env item c =
     (let instruction = doc_instruction env (address item)
      in renderOperands env instruction
           (renderMnemonic env instruction (renderAddress env item c)))"

definition renderInstruction ::
  "('n::floor_ceiling) Env \<Rightarrow> ListingItem \<Rightarrow> 'n cursor \<Rightarrow> 'n cursor" where
  "renderInstruction env item c =
     (let instruction = doc_instruction env (address item);
          (rf, st) = instruction_x env item c;
          st1 = (if x rf > of_int (m_commentcolumn st)
                 then st\<lparr>m_commentcolumn := to_integer (x rf)\<rparr> else st)
      in if comments instruction = [] then (rf, st1)
         else renderComments env instruction (rf, st1))"

subsection \<open>The loop of render\<close>

text \<open>\<^verbatim>\<open>std::to_string\<close> of an unsigned number: its decimal digits.\<close>

function to_string :: "nat \<Rightarrow> string" where
  "to_string n =
     (if n < 10 then [''0123456789'' ! n]
      else to_string (n div 10) @ [''0123456789'' ! (n mod 10)])"
  by pat_completeness auto
termination
  by (relation "measure id") auto

declare to_string.simps [simp del]

text \<open>
  The body of the loop, for the row \<open>i\<close> of the call and the line \<open>line\<close> of the
  document: \<open>row_cursor\<close> is \<^verbatim>\<open>rf.x = 0; rf.y = i * rf.fontheight\<close>, then the item's
  kind selects the routine.
\<close>

definition row_cursor ::
  "('n::linordered_semidom) cursor \<Rightarrow> size_t \<times> size_t \<Rightarrow> 'n cursor" where
  "row_cursor c row =
     (let (rf, st) = c; (i, line) = row
      in (rf\<lparr>x := 0, y := of_nat (unat i) * fontheight rf\<rparr>, st))"

definition render_line ::
  "('n::floor_ceiling) Env \<Rightarrow> 'n cursor \<Rightarrow> size_t \<times> size_t \<Rightarrow> 'n cursor" where
  "render_line env c row =
     (let item = itemAt env (snd row);
          (rf1, st) = row_cursor c row
      in if item_is item (SegmentItem env) then renderSegment env item (rf1, st)
         else if item_is item (FunctionItem env) then renderFunction env item (rf1, st)
         else if item_is item (InstructionItem env) then renderInstruction env item (rf1, st)
         else (let rf2 = rf1\<lparr>text_rf := ''Unknown Type: '' @ to_string (kind item)\<rparr>
               in (rf2, renderText rf2 st)))"

text \<open>
  The header of the loop,
  \<^verbatim>\<open>for(size_t i = 0, line = start; line < bound; i++, line++)\<close>: the rows it visits.
\<close>

function loop_rows :: "size_t \<Rightarrow> size_t \<Rightarrow> size_t \<Rightarrow> (size_t \<times> size_t) list" where
  "loop_rows bound i line =
     (if line < bound then (i, line) # loop_rows bound (i + 1) (line + 1) else [])"
  by pat_completeness auto
termination
proof (relation "measure (\<lambda>(bound, i, line). unat bound - unat line)")
  show "wf (measure (\<lambda>(bound, i, line). unat bound - unat line))"
    by simp
next
  fix bound i line :: size_t
  assume less: "line < bound"
  then have below: "unat line < unat bound"
    by (simp add: word_less_nat_alt)
  have "unat bound < 2 ^ 64"
    using unsigned_less [of bound] by simp
  with below have "unat (line + 1) = unat line + 1"
    by (simp add: unat_word_ariths)
  with below show "((bound, i + 1, line + 1), (bound, i, line))
      \<in> measure (\<lambda>(bound, i, line). unat bound - unat line)"
    by simp
qed

declare loop_rows.simps [simp del]

text \<open>
  The rows of \<^verbatim>\<open>render(start, count, userdata)\<close> on a document of \<open>docsize\<close> lines:
  \<^verbatim>\<open>end = start + count\<close> is computed in \<^verbatim>\<open>size_t\<close> and wraps around.
\<close>

definition render_rows :: "size_t \<Rightarrow> size_t \<Rightarrow> size_t \<Rightarrow> (size_t \<times> size_t) list" where
  "render_rows docsize start count =
     (let end_line = start + count
      in loop_rows (min docsize end_line) 0 start)"

text \<open>
  \<^verbatim>\<open>render\<close>: a new cursor (its strings empty), one call of \<^verbatim>\<open>fontUnit\<close> for its font
  width and height, then the loop. \<open>render_cursor\<close> is the cursor and the state after
  the loop, \<open>render\<close> the state alone, which is what outlives the call.
\<close>

definition render_start ::
  "('n::linordered_semidom) Env \<Rightarrow> nat \<Rightarrow> 'n ListingRenderer \<Rightarrow> 'n cursor" where
  "render_start env ud st =
     (let (wh, st1) = fontUnit env st
      in (\<lparr>x = 0, y = 0, fontwidth = fst wh, fontheight = snd wh,
           style = [], text_rf = [], userdata = ud\<rparr>, st1))"

definition render_cursor ::
  "('n::floor_ceiling) Env \<Rightarrow> size_t \<Rightarrow> size_t \<Rightarrow> nat \<Rightarrow> 'n ListingRenderer \<Rightarrow> 'n cursor" where
  "render_cursor env start count ud st =
     foldl (render_line env) (render_start env ud st)
       (render_rows (doc_size env) start count)"

definition render ::
  "('n::floor_ceiling) Env \<Rightarrow> size_t \<Rightarrow> size_t \<Rightarrow> nat \<Rightarrow> 'n ListingRenderer
     \<Rightarrow> 'n ListingRenderer" where
  "render env start count ud st = snd (render_cursor env start count ud st)"

text \<open>The constructor: \<^verbatim>\<open>m_commentcolumn(0)\<close>; nothing drawn, nothing measured.\<close>

definition new_renderer :: "'n ListingRenderer" where
  "new_renderer = \<lparr>m_commentcolumn = 0, drawn = [], fontqueries = 0\<rparr>"


text \<open>The fragments a step has handed to the backend: those drawn after the first \<open>n\<close>.\<close>

definition drawn_since :: "nat \<Rightarrow> 'n ListingRenderer \<Rightarrow> 'n RendererFormat list" where
  "drawn_since n st = drop n (drawn st)"

subsection \<open>What the specification says, for comparison\<close>

text \<open>
  The comment join of the specification: all comments in order, the separator between
  every two neighbours.
\<close>

fun join_with :: "string \<Rightarrow> string list \<Rightarrow> string" where
  "join_with sep [] = []"
| "join_with sep [s] = s"
| "join_with sep (s # t # ts) = s @ sep @ join_with sep (t # ts)"

text \<open>
  The mnemonic's style of the specification: the first entry of the priority list that
  matches the instruction, no style (the empty name) when none does.
\<close>

definition style_priority :: "((Instruction \<Rightarrow> bool) \<times> string) list" where
  "style_priority =
     [(isInvalid, ''instruction_invalid''),
      (\<lambda>i. instruction_is i Stop, ''instruction_stop''),
      (\<lambda>i. instruction_is i Nop, ''instruction_nop''),
      (\<lambda>i. instruction_is i Call, ''instruction_call''),
      (\<lambda>i. instruction_is i Jump \<and> instruction_is i Conditional, ''instruction_jmp_c''),
      (\<lambda>i. instruction_is i Jump, ''instruction_jmp'')]"

fun first_match :: "((Instruction \<Rightarrow> bool) \<times> string) list \<Rightarrow> Instruction \<Rightarrow> string" where
  "first_match [] i = []"
| "first_match ((p, s) # ps) i = (if p i then s else first_match ps i)"


text \<open>
  The styles of the fragments, as the claims describe them. A routine that assigns a style
  only in some cases draws with the assigned style if there is one, and with the style
  of the fragment before otherwise (\<open>inherit\<close>); \<open>last_name\<close> is the style a run of
  fragments leaves behind, and \<open>thread_styles\<close> passes it on from one element to the
  next. The empty style stands at the indents and the operands' separators only; a row
  of unknown kind, a mnemonic without a matching flag and an operand without a styled
  type take the style before them.
\<close>

definition last_name :: "string \<Rightarrow> string list \<Rightarrow> string" where
  "last_name s ss = (if ss = [] then s else last ss)"

definition inherit :: "string \<Rightarrow> string \<Rightarrow> string" where
  "inherit assigned previous = (if assigned = [] then previous else assigned)"

fun thread_styles :: "(string \<Rightarrow> 'a \<Rightarrow> string list) \<Rightarrow> string \<Rightarrow> 'a list \<Rightarrow> string list" where
  "thread_styles f s [] = []"
| "thread_styles f s (a # as) = f s a @ thread_styles f (last_name s (f s a)) as"

definition typed_style :: "Operand \<Rightarrow> string" where
  "typed_style operand =
     (if isNumeric operand \<and> operand_is operand Memory then ''memory_fg''
      else if isNumeric operand then ''immediate_fg''
      else if operand_is operand Displacement then ''displacement_fg''
      else if operand_is operand Register then ''register_fg''
      else [])"

definition operand_styles :: "string \<Rightarrow> Operand \<times> string \<times> string \<Rightarrow> string list" where
  "operand_styles s out =
     (let (operand, opsize, opstr) = out
      in if 0 < index operand then [[], inherit (typed_style operand) []]
         else [inherit (typed_style operand) s])"

definition function_styles :: "string \<times> string \<times> string \<Rightarrow> string list" where
  "function_styles parts =
     (let (pre, sym, post) = parts
      in (if pre \<noteq> [] then [''function_fg''] else []) @ [''function_fg'']
         @ (if post \<noteq> [] then [''function_fg''] else []))"

definition instruction_styles :: "'n Env \<Rightarrow> Instruction \<Rightarrow> string list" where
  "instruction_styles env instruction =
     (let m = inherit (first_match style_priority instruction) []
      in [''address_fg'', [], m]
         @ thread_styles operand_styles m (printer_out env instruction)
         @ (if comments instruction = [] then [] else [''comment_fg'']))"

definition row_styles :: "'n Env \<Rightarrow> string \<Rightarrow> size_t \<times> size_t \<Rightarrow> string list" where
  "row_styles env s row =
     (let item = itemAt env (snd row)
      in if item_is item (SegmentItem env) then
           map (\<lambda>line. ''segment_fg'') (printer_segment env (doc_segment env (address item)))
         else if item_is item (FunctionItem env) then
           [] # concat (map function_styles
                  (printer_function env (doc_symbol env (address item))))
         else if item_is item (InstructionItem env) then
           instruction_styles env (doc_instruction env (address item))
         else [s])"

text \<open>
  The number of strings measured on one row: none on a segment row and on a row of
  unknown kind; on a function row the indent, and \<open>pre\<close> and \<open>sym\<close> where the printer's
  \<open>pre\<close> and \<open>post\<close> are not empty; on an instruction row the address, the indent, the
  mnemonic and each operand.
\<close>

definition measured_on_row :: "'n Env \<Rightarrow> size_t \<times> size_t \<Rightarrow> nat" where
  "measured_on_row env row =
     (let item = itemAt env (snd row)
      in if item_is item (SegmentItem env) then 0
         else if item_is item (FunctionItem env) then
           1 + sum_list (map (\<lambda>(pre, sym, post).
                   (if pre \<noteq> [] then 1 else 0) + (if post \<noteq> [] then 1 else 0))
                 (printer_function env (doc_symbol env (address item))))
         else if item_is item (InstructionItem env) then
           3 + length (printer_out env (doc_instruction env (address item)))
         else 0)"

text \<open>The style the cursor is left with after the fragments \<open>fs\<close>, from the style \<open>s\<close>.\<close>

definition last_style :: "string \<Rightarrow> 'n RendererFormat list \<Rightarrow> string" where
  "last_style s fs = (if fs = [] then s else style (last fs))"

text \<open>
  \<open>follows c d\<close>: the cursor \<open>d\<close> comes after \<open>c\<close>; what was drawn at \<open>c\<close> is still there,
  and the style of \<open>d\<close> is the style of the last fragment drawn since (the style of \<open>c\<close>
  if there is none).
\<close>

definition follows :: "'n cursor \<Rightarrow> 'n cursor \<Rightarrow> bool" where
  "follows c d =
     (let n = length (drawn (snd c))
      in take n (drawn (snd d)) = drawn (snd c)
         \<and> style (fst d) = last_style (style (fst c)) (drawn_since n (snd d)))"

text \<open>
  \<open>draws c d ss\<close>: the cursor \<open>d\<close> comes after \<open>c\<close>, the fragments drawn since have the
  styles \<open>ss\<close>, in order, and the style of \<open>d\<close> is the last of them (that of \<open>c\<close> if
  there is none).
\<close>

definition draws :: "'n cursor \<Rightarrow> 'n cursor \<Rightarrow> string list \<Rightarrow> bool" where
  "draws c d ss =
     (let n = length (drawn (snd c))
      in take n (drawn (snd d)) = drawn (snd c)
         \<and> map style (drawn_since n (snd d)) = ss
         \<and> style (fst d) = last_name (style (fst c)) ss)"

subsection \<open>An example document\<close>

text \<open>
  Modelled from the spec: \<^verbatim>\<open>REDasm::hex\<close> is not in the sources. Lower-case hexadecimal
  digits, padded with zeros to \<open>bits / 4\<close> digits, no prefix.
\<close>

function hex_digits :: "nat \<Rightarrow> string" where
  "hex_digits n =
     (if n < 16 then [''0123456789abcdef'' ! n]
      else hex_digits (n div 16) @ [''0123456789abcdef'' ! (n mod 16)])"
  by pat_completeness auto
termination
  by (relation "measure id") auto

declare hex_digits.simps [simp del]

definition spec_hex :: "address_t \<Rightarrow> nat \<Rightarrow> bool \<Rightarrow> string" where
  "spec_hex a b withprefix =
     (let ds = hex_digits (unat a)
      in replicate (b div 4 - length ds) CHR ''0'' @ ds)"

text \<open>
  The scenario of the specification: a segment \<^verbatim>\<open>text\<close>, 32 bits, the instruction
  \<^verbatim>\<open>mov eax, 0x5\<close> at \<^verbatim>\<open>0x401000\<close> with two comments. The document has five lines: the
  segment, a line of kind 99, a function, the instruction, and a \<^verbatim>\<open>ret\<close> at an address
  outside every segment. The font is 8 wide and 16 high.
\<close>

definition example_mov :: Instruction where
  "example_mov = \<lparr>mnemonic = ''mov'', flags = {},
                   comments = [''sets eax'', ''see also foo'']\<rparr>"

definition example_ret :: Instruction where
  "example_ret = \<lparr>mnemonic = ''ret'', flags = {Stop}, comments = []\<rparr>"

definition example_env :: "real Env" where
  "example_env =
     \<lparr>doc_size = 5,
      itemAt = (\<lambda>line.
         if line = 0 then \<lparr>kind = 1, address = 0x401000\<rparr>
         else if line = 1 then \<lparr>kind = 99, address = 0x401000\<rparr>
         else if line = 2 then \<lparr>kind = 2, address = 0x401000\<rparr>
         else if line = 3 then \<lparr>kind = 3, address = 0x401000\<rparr>
         else \<lparr>kind = 3, address = 0x500000\<rparr>),
      doc_segment = (\<lambda>a. if a = 0x401000 then Some \<lparr>name = ''text''\<rparr> else None),
      doc_symbol = (\<lambda>a. if a = 0x401000 then Some \<lparr>symname = ''main''\<rparr> else None),
      doc_instruction = (\<lambda>a. if a = 0x401000 then example_mov else example_ret),
      printer_segment = (\<lambda>s. case s of None \<Rightarrow> [] | Some g \<Rightarrow> [''segment '' @ name g]),
      printer_function =
        (\<lambda>s. case s of None \<Rightarrow> [] | Some f \<Rightarrow> [(''function '', symname f, ''()'')]),
      printer_out = (\<lambda>i.
         if mnemonic i = ''mov'' then
           [(\<lparr>index = 0, optypes = {Register}, numeric = False\<rparr>, [], ''eax''),
            (\<lparr>index = 1, optypes = {Immediate}, numeric = True\<rparr>, [], ''0x5'')]
         else []),
      bits = 32,
      hex = spec_hex,
      font = (8, 16),
      SegmentItem = 1,
      FunctionItem = 2,
      InstructionItem = 3\<rparr>"


definition example_rf :: "real RendererFormat" where
  "example_rf = \<lparr>x = 0, y = 0, fontwidth = 8, fontheight = 16,
                  style = [], text_rf = [], userdata = 0\<rparr>"

section \<open>Properties\<close>

subsection \<open>Folds, measuring, and the example\<close>

lemma foldl_invariant:
  assumes "P c" and "\<And>d a. P d \<Longrightarrow> P (f d a)"
  shows "P (foldl f c xs)"
  using assms(1) by (induction xs arbitrary: c) (simp_all add: assms(2))

lemma foldl_count:
  fixes g :: "'c \<Rightarrow> nat"
  assumes "\<And>d a. g (f d a) = g d + k a"
  shows "g (foldl f c xs) = g c + sum_list (map k xs)"
  by (induction xs arbitrary: c) (simp_all add: assms)

lemma measureString_eq:
  "measureString env s st
     = (of_nat (length s) * fst (font env), st\<lparr>fontqueries := Suc (fontqueries st)\<rparr>)"
  by (simp add: measureString_def fontUnit_def)

lemma advance_eq:
  "advance env s (rf, st)
     = (rf\<lparr>x := x rf + of_nat (length s) * fst (font env)\<rparr>,
        st\<lparr>fontqueries := Suc (fontqueries st)\<rparr>)"
  by (simp add: advance_def measureString_eq)

lemmas step_defs = renderIndent_def renderAddressIndent_def segment_cb_def function_cb_def
  renderAddress_def renderMnemonic_def operand_cb_def renderComments_def
  advance_eq renderText_def Let_def split_def

lemma example_env_simps:
  "doc_size example_env = 5"
  "itemAt example_env = (\<lambda>line.
         if line = 0 then \<lparr>kind = 1, address = 0x401000\<rparr>
         else if line = 1 then \<lparr>kind = 99, address = 0x401000\<rparr>
         else if line = 2 then \<lparr>kind = 2, address = 0x401000\<rparr>
         else if line = 3 then \<lparr>kind = 3, address = 0x401000\<rparr>
         else \<lparr>kind = 3, address = 0x500000\<rparr>)"
  "doc_segment example_env = (\<lambda>a. if a = 0x401000 then Some \<lparr>name = ''text''\<rparr> else None)"
  "doc_symbol example_env = (\<lambda>a. if a = 0x401000 then Some \<lparr>symname = ''main''\<rparr> else None)"
  "doc_instruction example_env = (\<lambda>a. if a = 0x401000 then example_mov else example_ret)"
  "printer_segment example_env
     = (\<lambda>s. case s of None \<Rightarrow> [] | Some g \<Rightarrow> [''segment '' @ name g])"
  "printer_function example_env
     = (\<lambda>s. case s of None \<Rightarrow> [] | Some f \<Rightarrow> [(''function '', symname f, ''()'')])"
  "printer_out example_env = (\<lambda>i.
         if mnemonic i = ''mov'' then
           [(\<lparr>index = 0, optypes = {Register}, numeric = False\<rparr>, [], ''eax''),
            (\<lparr>index = 1, optypes = {Immediate}, numeric = True\<rparr>, [], ''0x5'')]
         else [])"
  "bits example_env = 32"
  "hex example_env = spec_hex"
  "font example_env = (8, 16)"
  "SegmentItem example_env = 1"
  "FunctionItem example_env = 2"
  "InstructionItem example_env = 3"
  by (simp_all add: example_env_def)

lemma replicate_numeral: "replicate (numeral k) a = a # replicate (pred_numeral k) a"
  by (simp add: numeral_eq_Suc)

lemmas run_defs = render_def render_cursor_def render_start_def render_rows_def
  render_line_def row_cursor_def renderSegment_def segment_cb_def renderFunction_def
  function_cb_def renderAddressIndent_def renderAddress_def renderIndent_def
  renderMnemonic_def mnemonic_style_def renderOperands_def operand_cb_def operand_style_def
  renderInstruction_def instruction_x_def renderComments_def commentString_def
  advance_def measureString_def fontUnit_def renderText_def item_is_def isInvalid_def
  instruction_is_def operand_is_def isNumeric_def INDENT_WIDTH_def HEX_ADDRESS_def
  spec_hex_def drawn_since_def loop_rows.simps to_string.simps hex_digits.simps Let_def
  to_integer_def
  example_env_simps example_mov_def example_ret_def example_rf_def new_renderer_def
  replicate_numeral

subsection \<open>The comment string\<close>

lemma foldl_separator:
  "front \<notin> set cs \<Longrightarrow>
   foldl (\<lambda>ss s. (if s \<noteq> front then ss @ sep else ss) @ s) acc cs
     = acc @ concat (map (\<lambda>s. sep @ s) cs)"
  by (induction cs arbitrary: acc) auto

lemma join_with_Cons: "join_with sep (c # cs) = c @ concat (map (\<lambda>s. sep @ s) cs)"
  by (induction cs arbitrary: c) auto

text \<open>
  When no later comment repeats the first one, \<^verbatim>\<open>commentString\<close> is the join of the
  specification behind \<^verbatim>\<open>"# "\<close>.
\<close>

lemma commentString_join:
  assumes "comments instruction = c # cs" and "c \<notin> set cs"
  shows "commentString instruction = ''# '' @ join_with '' | '' (comments instruction)"
  using assms by (simp add: commentString_def foldl_separator join_with_Cons)

text \<open>
  Claim C1: for an instruction with comments, the text of the comment fragment is
  \<^verbatim>\<open>"# "\<close> and then all comments in order, joined by \<^verbatim>\<open>" | "\<close>, whatever the comments
  are. The code tests whether a comment is the first one by comparing it with the
  first comment's text, so a comment that repeats the first one gets no separator:
  for the comments "sets eax", "sets eax" the code gives "# sets eaxsets eax" where the
  join is "# sets eax | sets eax".
\<close>

theorem commentString_repeated_first:
  "commentString \<lparr>mnemonic = ''mov'', flags = {}, comments = [''sets eax'', ''sets eax'']\<rparr>
     = ''# sets eaxsets eax''
   \<and> ''# '' @ join_with '' | '' [''sets eax'', ''sets eax''] = ''# sets eax | sets eax''"
  by (simp add: commentString_def)

subsection \<open>The rows of a call\<close>

lemma loop_rows_length: "length (loop_rows bound i line) = unat bound - unat line"
proof (induction bound i line rule: loop_rows.induct)
  case (1 bound i line)
  show ?case
  proof (cases "line < bound")
    case True
    then have below: "unat line < unat bound"
      by (simp add: word_less_nat_alt)
    have "unat bound < 2 ^ 64"
      using unsigned_less [of bound] by simp
    with below have "unat (line + 1) = unat line + 1"
      by (simp add: unat_word_ariths)
    with True below 1 show ?thesis
      by (simp add: loop_rows.simps [of bound i line])
  next
    case False
    then have "unat bound \<le> unat line"
      by (simp add: word_less_nat_alt)
    with False show ?thesis
      by (simp add: loop_rows.simps [of bound i line])
  qed
qed

text \<open>
  As long as \<^verbatim>\<open>start + count\<close> does not wrap around, the loop runs
  \<open>min count (docsize - start)\<close> times (no time when \<open>start\<close> is past the end).
\<close>

lemma render_rows_length:
  assumes "unat start + unat count < 2 ^ 64"
  shows "length (render_rows docsize start count)
           = min (unat count) (unat docsize - unat start)"
proof -
  have "unat (start + count) = unat start + unat count"
    using assms by (simp add: unat_word_ariths)
  moreover have "unat (min docsize (start + count))
      = min (unat docsize) (unat (start + count))"
    by (simp add: min_def word_le_nat_alt)
  ultimately show ?thesis
    by (simp add: render_rows_def loop_rows_length)
qed

text \<open>For any arguments the loop runs at most \<open>count\<close> times.\<close>

lemma render_rows_le_count: "length (render_rows docsize start count) \<le> unat count"
proof (cases "unat start + unat count < 2 ^ 64")
  case True
  then show ?thesis
    by (simp add: render_rows_length)
next
  case False
  have "unat start < 2 ^ 64" and "unat count < 2 ^ 64"
    using unsigned_less [of start] unsigned_less [of count] by simp_all
  with False have "unat (start + count) = unat start + unat count - 2 ^ 64"
    by (simp add: unat_word_ariths mod_if)
  with \<open>unat count < 2 ^ 64\<close> have "unat (start + count) \<le> unat start"
    by simp
  moreover have "unat (min docsize (start + count)) \<le> unat (start + count)"
    by (simp add: min_def word_le_nat_alt)
  ultimately show ?thesis
    by (simp add: render_rows_def loop_rows_length)
qed

text \<open>
  Claim C2: for every \<^verbatim>\<open>render(start, count, context)\<close> the number of rows rendered
  is \<open>min count (documentSize - start)\<close>. The code computes \<^verbatim>\<open>end = start + count\<close>
  in \<^verbatim>\<open>size_t\<close>: on a document of two lines, \<^verbatim>\<open>render(1, SIZE_MAX)\<close> has
  \<^verbatim>\<open>end = 0\<close> and renders no row, where the claim gives \<open>min SIZE_MAX (2 - 1) = 1\<close>.
\<close>

theorem render_rows_wraps:
  "length (render_rows 2 1 (- 1)) = 0
   \<and> unat (- 1 :: size_t) = 18446744073709551615
   \<and> min (unat (- 1 :: size_t)) (unat (2 :: size_t) - unat (1 :: size_t)) = 1"
  by (simp add: render_rows_def loop_rows.simps unsigned_minus_1_eq_mask mask_eq_exp_minus_1)

subsection \<open>The comment column\<close>





























subsection \<open>Counting the font queries\<close>

lemma fq_segment_cb: "fontqueries (snd (segment_cb c line)) = fontqueries (snd c)"
  by (cases c) (simp add: step_defs)

lemma fq_function_cb:
  "fontqueries (snd (function_cb env c parts))
     = fontqueries (snd c)
       + (\<lambda>(pre, sym, post).
            (if pre \<noteq> [] then 1 else 0) + (if post \<noteq> [] then 1 else 0)) parts"
  by (cases c, cases parts) (simp add: step_defs)

lemma fq_operand_cb: "fontqueries (snd (operand_cb env c out)) = fontqueries (snd c) + 1"
  by (cases c, cases out) (simp add: step_defs)

lemma fq_renderAddressIndent:
  "fontqueries (snd (renderAddressIndent env item c)) = fontqueries (snd c) + 1"
  by (cases c) (simp add: step_defs)

lemma fq_renderAddress: "fontqueries (snd (renderAddress env item c)) = fontqueries (snd c) + 2"
  by (cases c) (simp add: step_defs)

lemma fq_renderMnemonic:
  "fontqueries (snd (renderMnemonic env instruction c)) = fontqueries (snd c) + 1"
  by (cases c) (simp add: step_defs)

lemma fq_renderComments:
  "fontqueries (snd (renderComments env instruction c)) = fontqueries (snd c)"
  by (cases c) (simp add: step_defs)

lemma fq_renderSegment: "fontqueries (snd (renderSegment env item c)) = fontqueries (snd c)"
  unfolding renderSegment_def
  by (simp add: foldl_count [where g = "\<lambda>d. fontqueries (snd d)" and k = "\<lambda>a. 0"] fq_segment_cb)

lemma fq_renderFunction:
  "fontqueries (snd (renderFunction env item c))
     = fontqueries (snd c) + 1
       + sum_list (map (\<lambda>(pre, sym, post).
             (if pre \<noteq> [] then 1 else 0) + (if post \<noteq> [] then 1 else 0))
           (printer_function env (doc_symbol env (address item))))"
  unfolding renderFunction_def
  by (subst foldl_count [where g = "\<lambda>d. fontqueries (snd d)"
        and k = "\<lambda>(pre, sym, post). (if pre \<noteq> [] then 1 else 0) + (if post \<noteq> [] then 1 else 0)"])
     (simp_all add: fq_function_cb fq_renderAddressIndent)

lemma fq_renderOperands:
  "fontqueries (snd (renderOperands env instruction c))
     = fontqueries (snd c) + length (printer_out env instruction)"
  unfolding renderOperands_def
  by (subst foldl_count [where g = "\<lambda>d. fontqueries (snd d)" and k = "\<lambda>a. 1"])
     (simp_all add: fq_operand_cb sum_list_triv)

lemma fq_renderInstruction:
  "fontqueries (snd (renderInstruction env item c))
     = fontqueries (snd c) + 3 + length (printer_out env (doc_instruction env (address item)))"
proof -
  have "fontqueries (snd (instruction_x env item c))
      = fontqueries (snd c) + 3 + length (printer_out env (doc_instruction env (address item)))"
    by (simp add: instruction_x_def Let_def fq_renderOperands fq_renderMnemonic fq_renderAddress)
  then show ?thesis
    by (cases "instruction_x env item c")
       (simp add: renderInstruction_def Let_def fq_renderComments)
qed

lemma fq_render_line:
  "fontqueries (snd (render_line env c row)) = fontqueries (snd c) + measured_on_row env row"
  by (cases c, cases row)
     (simp add: render_line_def row_cursor_def measured_on_row_def Let_def fq_renderSegment
        fq_renderFunction fq_renderInstruction renderText_def)

lemma fq_render:
  "fontqueries (render env start count ud st)
     = fontqueries st + 1
       + sum_list (map (measured_on_row env) (render_rows (doc_size env) start count))"
  unfolding render_def render_cursor_def
  by (subst foldl_count [where g = "\<lambda>d. fontqueries (snd d)" and k = "measured_on_row env"])
     (simp_all add: fq_render_line render_start_def fontUnit_def)

subsection \<open>Styles\<close>

lemma last_style_append: "last_style s (xs @ ys) = last_style (last_style s xs) ys"
  by (simp add: last_style_def)

lemma follows_iff:
  "follows c d \<longleftrightarrow>
     (\<exists>ys. drawn (snd d) = drawn (snd c) @ ys
        \<and> style (fst d) = last_style (style (fst c)) ys)"
proof
  assume f: "follows c d"
  define ys where "ys = drop (length (drawn (snd c))) (drawn (snd d))"
  have "drawn (snd d) = take (length (drawn (snd c))) (drawn (snd d)) @ ys"
    by (simp add: ys_def)
  with f have "drawn (snd d) = drawn (snd c) @ ys"
    by (simp add: follows_def Let_def)
  moreover from f have "style (fst d) = last_style (style (fst c)) ys"
    by (simp add: follows_def Let_def drawn_since_def ys_def)
  ultimately show "\<exists>ys. drawn (snd d) = drawn (snd c) @ ys
        \<and> style (fst d) = last_style (style (fst c)) ys"
    by blast
next
  assume "\<exists>ys. drawn (snd d) = drawn (snd c) @ ys
        \<and> style (fst d) = last_style (style (fst c)) ys"
  then show "follows c d"
    by (auto simp add: follows_def Let_def drawn_since_def)
qed

lemma follows_refl: "follows c c"
  by (simp add: follows_def drawn_since_def last_style_def)

lemma follows_trans:
  assumes "follows c d" and "follows d e"
  shows "follows c e"
proof -
  from assms(1) obtain ys where ys: "drawn (snd d) = drawn (snd c) @ ys"
    "style (fst d) = last_style (style (fst c)) ys"
    unfolding follows_iff by blast
  from assms(2) obtain zs where zs: "drawn (snd e) = drawn (snd d) @ zs"
    "style (fst e) = last_style (style (fst d)) zs"
    unfolding follows_iff by blast
  have "drawn (snd e) = drawn (snd c) @ (ys @ zs)"
    by (simp add: ys zs)
  moreover have "style (fst e) = last_style (style (fst c)) (ys @ zs)"
    by (simp add: last_style_append ys zs)
  ultimately show ?thesis
    unfolding follows_iff by blast
qed

lemma follows_foldl:
  assumes "\<And>d a. follows d (f d a)"
  shows "follows c (foldl f c xs)"
  by (rule foldl_invariant [where P = "follows c"])
     (auto intro: follows_refl follows_trans assms)

lemmas follows_defs = follows_def drawn_since_def last_style_def

lemma follows_segment_cb: "follows c (segment_cb c line)"
  by (cases c) (simp add: follows_defs step_defs)

lemma follows_function_cb: "follows c (function_cb env c parts)"
  by (cases c, cases parts) (simp add: follows_defs step_defs)

lemma follows_operand_cb: "follows c (operand_cb env c out)"
  by (cases c, cases out) (simp add: follows_defs step_defs operand_style_def)

lemma follows_renderAddressIndent: "follows c (renderAddressIndent env item c)"
  by (cases c) (simp add: follows_defs step_defs list_all_iff)

lemma follows_renderAddress: "follows c (renderAddress env item c)"
  by (cases c) (simp add: follows_defs step_defs list_all_iff)

lemma follows_renderMnemonic: "follows c (renderMnemonic env instruction c)"
  by (cases c) (simp add: follows_defs step_defs mnemonic_style_def)

lemma follows_renderComments: "follows c (renderComments env instruction c)"
  by (cases c) (simp add: follows_defs step_defs)

lemma follows_renderSegment: "follows c (renderSegment env item c)"
  unfolding renderSegment_def by (rule follows_foldl) (rule follows_segment_cb)

lemma follows_renderFunction: "follows c (renderFunction env item c)"
  unfolding renderFunction_def
  by (rule follows_trans [OF follows_renderAddressIndent follows_foldl])
     (rule follows_function_cb)

lemma follows_renderOperands: "follows c (renderOperands env instruction c)"
  unfolding renderOperands_def by (rule follows_foldl) (rule follows_operand_cb)

lemma follows_instruction_x: "follows c (instruction_x env item c)"
  unfolding instruction_x_def Let_def
  by (rule follows_trans [OF follows_renderAddress
        follows_trans [OF follows_renderMnemonic follows_renderOperands]])

lemma follows_renderInstruction: "follows c (renderInstruction env item c)"
proof -
  obtain rf st where x: "instruction_x env item c = (rf, st)"
    by (cases "instruction_x env item c")
  define st1 where "st1 = (if x rf > of_int (m_commentcolumn st)
    then st\<lparr>m_commentcolumn := to_integer (x rf)\<rparr> else st)"
  have "follows (rf, st) (rf, st1)"
    by (simp add: follows_defs st1_def)
  with follows_instruction_x [of c env item] have 1: "follows c (rf, st1)"
    by (auto simp add: x intro: follows_trans)
  show ?thesis
  proof (cases "comments (doc_instruction env (address item)) = []")
    case True
    with 1 show ?thesis
      by (simp add: renderInstruction_def Let_def x st1_def)
  next
    case False
    with follows_trans [OF 1 follows_renderComments] show ?thesis
      by (simp add: renderInstruction_def Let_def x st1_def)
  qed
qed

lemma follows_row_cursor: "follows c (row_cursor c row)"
  by (cases c, cases row) (simp add: follows_defs row_cursor_def)

lemma follows_render_line: "follows c (render_line env c row)"
proof -
  obtain rf1 st where r: "row_cursor c row = (rf1, st)"
    by (cases "row_cursor c row")
  have "follows (rf1, st)
     (rf1\<lparr>text_rf := ''Unknown Type: '' @ to_string (kind (itemAt env (snd row)))\<rparr>,
      renderText (rf1\<lparr>text_rf := ''Unknown Type: '' @ to_string (kind (itemAt env (snd row)))\<rparr>) st)"
    by (simp add: follows_defs renderText_def)
  then have "follows (row_cursor c row) (render_line env c row)"
    by (simp add: render_line_def Let_def r follows_renderSegment follows_renderFunction
        follows_renderInstruction)
  with follows_row_cursor show ?thesis
    by (rule follows_trans)
qed

lemma follows_render_lines: "follows c (foldl (render_line env) c rows)"
  by (rule follows_foldl) (rule follows_render_line)

lemma follows_drawn_since:
  assumes "follows c d" and "drawn (snd c) = pre @ fs @ rest" and "length pre = n"
  shows "take (length fs) (drawn_since n (snd d)) = fs"
proof -
  from assms(1) obtain ys where "drawn (snd d) = drawn (snd c) @ ys"
    unfolding follows_iff by blast
  with assms(2,3) show ?thesis
    by (simp add: drawn_since_def)
qed

lemma follows_instruction_tail:
  assumes "instruction_x env item c = d"
  shows "follows d (renderInstruction env item c)"
proof -
  obtain rf st where d: "d = (rf, st)"
    by (cases d)
  define st1 where "st1 = (if x rf > of_int (m_commentcolumn st)
    then st\<lparr>m_commentcolumn := to_integer (x rf)\<rparr> else st)"
  have 1: "follows (rf, st) (rf, st1)"
    by (simp add: follows_defs st1_def)
  show ?thesis
  proof (cases "comments (doc_instruction env (address item)) = []")
    case True
    with 1 show ?thesis
      using assms by (simp add: renderInstruction_def Let_def d st1_def)
  next
    case False
    with follows_trans [OF 1 follows_renderComments] show ?thesis
      using assms by (simp add: renderInstruction_def Let_def d st1_def)
  qed
qed

lemma follows_after_mnemonic:
  "follows (renderMnemonic env (doc_instruction env (address item)) (renderAddress env item c))
     (renderInstruction env item c)"
proof -
  have "instruction_x env item c
      = renderOperands env (doc_instruction env (address item))
          (renderMnemonic env (doc_instruction env (address item)) (renderAddress env item c))"
    by (simp add: instruction_x_def Let_def)
  from follows_renderOperands follows_instruction_tail [OF this] show ?thesis
    by (rule follows_trans)
qed

lemma follows_after_address:
  "follows (renderAddress env item c) (renderInstruction env item c)"
  by (rule follows_trans [OF follows_renderMnemonic follows_after_mnemonic])

lemma style_renderAddress: "style (fst (renderAddress env item c)) = []"
  by (cases c) (simp add: step_defs)

lemma length_renderAddress:
  "length (drawn (snd (renderAddress env item c))) = length (drawn (snd c)) + 2"
  by (cases c) (simp add: step_defs)

lemma mnemonic_style_priority: "mnemonic_style instruction [] = first_match style_priority instruction"
  by (simp add: mnemonic_style_def style_priority_def)

subsection \<open>The fragments of an instruction row\<close>

text \<open>
  Claim C4: on every instruction row the style of the mnemonic's fragment is that of the
  first flag that matches, in the order invalid, stop, nop, call, jump and conditional,
  jump, and no style when none matches; its text is the mnemonic and one space, and x
  advances by the measured width of that text. The mnemonic is the third fragment of the
  row, after the address and the indent (which leaves the style empty).
\<close>

theorem mnemonic_fragment:
  "(let instruction = doc_instruction env (address item);
        (rfa, sta) = renderAddress env item (rf, st);
        t = mnemonic instruction @ '' ''
    in length (drawn sta) = length (drawn st) + 2
       \<and> take 1 (drawn_since (length (drawn sta)) (snd (renderInstruction env item (rf, st))))
           = [rfa\<lparr>style := first_match style_priority instruction, text_rf := t\<rparr>]
       \<and> x (fst (renderMnemonic env instruction (rfa, sta)))
           = x rfa + fst (measureString env t sta))"
proof -
  define instruction where "instruction = doc_instruction env (address item)"
  obtain rfa sta where a: "renderAddress env item (rf, st) = (rfa, sta)"
    by (cases "renderAddress env item (rf, st)")
  define fm where "fm = rfa\<lparr>style := first_match style_priority instruction,
    text_rf := mnemonic instruction @ '' ''\<rparr>"
  have s: "style rfa = []"
    using style_renderAddress [of env item "(rf, st)"] by (simp add: a)
  have len: "length (drawn sta) = length (drawn st) + 2"
    using length_renderAddress [of env item "(rf, st)"] by (simp add: a)
  have m: "drawn (snd (renderMnemonic env instruction (rfa, sta))) = drawn sta @ [fm] @ []"
    by (simp add: step_defs fm_def s mnemonic_style_priority [symmetric])
  have "follows (renderMnemonic env instruction (rfa, sta)) (renderInstruction env item (rf, st))"
    using follows_after_mnemonic [of env item "(rf, st)"] by (simp add: a instruction_def)
  from follows_drawn_since [OF this m refl]
  have "take 1 (drawn_since (length (drawn sta)) (snd (renderInstruction env item (rf, st)))) = [fm]"
    by simp
  moreover have "x (fst (renderMnemonic env instruction (rfa, sta)))
           = x rfa + fst (measureString env (mnemonic instruction @ '' '') sta)"
    by (simp add: step_defs measureString_eq)
  ultimately show ?thesis
    using len by (simp add: a Let_def instruction_def fm_def)
qed

theorem mnemonic_fragment_witness:
  "take 1 (drawn_since 2 (snd (renderInstruction example_env \<lparr>kind = 3, address = 0x500000\<rparr>
       (example_rf, new_renderer))))
     = [example_rf\<lparr>x := 112, style := ''instruction_stop'', text_rf := ''ret ''\<rparr>]
   \<and> first_match style_priority example_ret = ''instruction_stop''
   \<and> first_match style_priority example_mov = []
   \<and> x (fst (renderMnemonic example_env example_ret
         (renderAddress example_env \<lparr>kind = 3, address = 0x500000\<rparr> (example_rf, new_renderer))))
       = 144"
proof -
  note t = mnemonic_fragment [of example_env "\<lparr>kind = 3, address = 0x500000\<rparr>" example_rf new_renderer]
  have a: "renderAddress example_env \<lparr>kind = 3, address = 0x500000\<rparr> (example_rf, new_renderer)
     = (example_rf\<lparr>x := 112, text_rf := ''  ''\<rparr>,
        \<lparr>m_commentcolumn = 0,
         drawn = [example_rf\<lparr>style := ''address_fg'', text_rf := ''unk:00500000''\<rparr>,
                  example_rf\<lparr>x := 96, text_rf := ''  ''\<rparr>],
         fontqueries = 2\<rparr>)"
    by (simp add: run_defs)
  have m: "first_match style_priority example_ret = ''instruction_stop''"
    "first_match style_priority example_mov = []"
    by (simp_all add: style_priority_def run_defs)
  from t show ?thesis
    by (simp add: a m example_env_simps measureString_eq) (simp add: run_defs)
qed

text \<open>
  Claim C8: an instruction item whose address is in no segment is rendered like any other
  (the model has no failing branch, as the code has none), and the first fragment of its
  row, the address, has the name \<^verbatim>\<open>unk\<close> where the segment's name would be.
\<close>

theorem address_unknown_segment:
  assumes "\<not> item_is (itemAt env (snd row)) (SegmentItem env)"
    and "\<not> item_is (itemAt env (snd row)) (FunctionItem env)"
    and "item_is (itemAt env (snd row)) (InstructionItem env)"
    and "doc_segment env (address (itemAt env (snd row))) = None"
  shows "take 1 (drawn_since (length (drawn (snd c))) (snd (render_line env c row)))
           = [(fst (row_cursor c row))\<lparr>style := ''address_fg'',
                text_rf := ''unk:'' @ HEX_ADDRESS env (address (itemAt env (snd row)))\<rparr>]"
proof -
  define item where "item = itemAt env (snd row)"
  obtain rf1 st where r: "row_cursor c row = (rf1, st)"
    by (cases "row_cursor c row")
  have st: "drawn st = drawn (snd c)"
    using r by (cases c, cases row) (auto simp add: row_cursor_def)
  define fa where "fa = rf1\<lparr>style := ''address_fg'',
    text_rf := ''unk:'' @ HEX_ADDRESS env (address item)\<rparr>"
  have line: "render_line env c row = renderInstruction env item (rf1, st)"
    using assms by (simp add: render_line_def Let_def r item_def)
  have "\<exists>f. drawn (snd (renderAddress env item (rf1, st))) = drawn st @ [fa] @ [f]"
    using assms(4) by (simp add: step_defs fa_def item_def)
  then obtain f where "drawn (snd (renderAddress env item (rf1, st))) = drawn st @ [fa] @ [f]"
    by auto
  from follows_drawn_since [OF follows_after_address this refl]
  show ?thesis
    by (simp add: line st r fa_def item_def)
qed

theorem address_unknown_segment_witness:
  "take 1 (drawn_since 0 (snd (render_line example_env (render_start example_env 7 new_renderer) (0, 4))))
     = [\<lparr>x = 0, y = 0, fontwidth = 8, fontheight = 16, style = ''address_fg'',
         text_rf = ''unk:00500000'', userdata = 7\<rparr>]"
proof -
  have "doc_segment example_env (address (itemAt example_env (snd (0 :: size_t, 4 :: size_t)))) = None"
    by (simp add: example_env_simps)
  from address_unknown_segment [of example_env "(0, 4)" "render_start example_env 7 new_renderer", OF _ _ _ this]
  show ?thesis
    by (simp add: run_defs)
qed

subsection \<open>Operands\<close>






subsection \<open>Functions\<close>

lemma function_cb_fragments:
  "(let x1 = x rf + (if pre = [] then 0 else fst (measureString env pre st));
       fpre = rf\<lparr>style := ''function_fg'', text_rf := pre\<rparr>;
       fsym = rf\<lparr>x := x1, style := ''function_fg'', text_rf := symb\<rparr>;
       fpost = rf\<lparr>x := x1 + fst (measureString env symb st), style := ''function_fg'', text_rf := post\<rparr>;
       (rf', st') = function_cb env (rf, st) (pre, symb, post)
   in (post \<noteq> [] \<longrightarrow> rf' = fpost \<and> drawn st' = drawn st @ (if pre = [] then [] else [fpre]) @ [fsym, fpost])
    \<and> (post = [] \<longrightarrow> rf' = fsym \<and> drawn st' = drawn st @ (if pre = [] then [] else [fpre]) @ [fsym]))"
  by (simp add: function_cb_def advance_eq measureString_eq renderText_def Let_def)

lemma function_row_fragments:
  "\<not> item_is (itemAt env (snd row)) (SegmentItem env)
      \<and> item_is (itemAt env (snd row)) (FunctionItem env)
      \<and> printer_function env (doc_symbol env (address (itemAt env (snd row))))
          = [(pre, symb, post)]
   \<longrightarrow> (let rf0 = fst (row_cursor c0 row);
            blank = replicate (bits env div 4
                      + (case doc_segment env (address (itemAt env (snd row))) of
                           Some segment \<Rightarrow> length (name segment) | None \<Rightarrow> 0)
                      + INDENT_WIDTH) CHR '' '';
            x0 = x rf0 + fst (measureString env blank st);
            x1 = x0 + (if pre = [] then 0 else fst (measureString env pre st));
            findent = rf0\<lparr>style := [], text_rf := blank\<rparr>;
            fpre = rf0\<lparr>x := x0, style := ''function_fg'', text_rf := pre\<rparr>;
            fsym = rf0\<lparr>x := x1, style := ''function_fg'', text_rf := symb\<rparr>;
            fpost = rf0\<lparr>x := x1 + fst (measureString env symb st),
                       style := ''function_fg'', text_rf := post\<rparr>;
            (rf', st') = render_line env c0 row
        in drawn st' = drawn (snd c0) @ [findent] @ (if pre = [] then [] else [fpre])
                         @ [fsym] @ (if post = [] then [] else [fpost])
           \<and> rf' = (if post = [] then fsym else fpost))"
  by (cases c0, cases row, cases "doc_segment env (address (itemAt env (snd row)))")
     (simp_all add: render_line_def renderFunction_def row_cursor_def step_defs
        measureString_eq add.assoc)

lemma function_row_callbacks:
  "\<not> item_is (itemAt env (snd row)) (SegmentItem env)
      \<and> item_is (itemAt env (snd row)) (FunctionItem env)
   \<longrightarrow> render_line env c0 row
       = foldl (function_cb env)
           (renderAddressIndent env (itemAt env (snd row)) (row_cursor c0 row))
           (printer_function env (doc_symbol env (address (itemAt env (snd row)))))"
  by (cases "row_cursor c0 row") (simp add: render_line_def renderFunction_def Let_def)

text \<open>
  Claim C7: in function rendering, when \<open>post\<close> is not empty, x is advanced by the
  measured width of \<open>sym\<close> alone before \<open>post\<close> is drawn; when \<open>post\<close> is empty, x stays
  where \<open>sym\<close> was drawn and no fragment follows it. First the callback of
  \<^verbatim>\<open>renderFunction\<close> from any cursor; then a function row of \<^verbatim>\<open>render\<close>, which is the
  indent and the callback for each triple of the printer; then the fragments and the
  cursor of a function row for which the printer delivers one triple.
\<close>

theorem function_post_width:
  "((let x1 = x rf + (if pre = [] then 0 else fst (measureString env pre st));
       fpre = rf\<lparr>style := ''function_fg'', text_rf := pre\<rparr>;
       fsym = rf\<lparr>x := x1, style := ''function_fg'', text_rf := symb\<rparr>;
       fpost = rf\<lparr>x := x1 + fst (measureString env symb st), style := ''function_fg'', text_rf := post\<rparr>;
       (rf', st') = function_cb env (rf, st) (pre, symb, post)
   in (post \<noteq> [] \<longrightarrow> rf' = fpost \<and> drawn st' = drawn st @ (if pre = [] then [] else [fpre]) @ [fsym, fpost])
    \<and> (post = [] \<longrightarrow> rf' = fsym \<and> drawn st' = drawn st @ (if pre = [] then [] else [fpre]) @ [fsym])))
   \<and> (\<not> item_is (itemAt env (snd row)) (SegmentItem env)
      \<and> item_is (itemAt env (snd row)) (FunctionItem env)
   \<longrightarrow> render_line env c0 row
       = foldl (function_cb env)
           (renderAddressIndent env (itemAt env (snd row)) (row_cursor c0 row))
           (printer_function env (doc_symbol env (address (itemAt env (snd row))))))
   \<and> (\<not> item_is (itemAt env (snd row)) (SegmentItem env)
      \<and> item_is (itemAt env (snd row)) (FunctionItem env)
      \<and> printer_function env (doc_symbol env (address (itemAt env (snd row))))
          = [(pre, symb, post)]
   \<longrightarrow> (let rf0 = fst (row_cursor c0 row);
            blank = replicate (bits env div 4
                      + (case doc_segment env (address (itemAt env (snd row))) of
                           Some segment \<Rightarrow> length (name segment) | None \<Rightarrow> 0)
                      + INDENT_WIDTH) CHR '' '';
            x0 = x rf0 + fst (measureString env blank st);
            x1 = x0 + (if pre = [] then 0 else fst (measureString env pre st));
            findent = rf0\<lparr>style := [], text_rf := blank\<rparr>;
            fpre = rf0\<lparr>x := x0, style := ''function_fg'', text_rf := pre\<rparr>;
            fsym = rf0\<lparr>x := x1, style := ''function_fg'', text_rf := symb\<rparr>;
            fpost = rf0\<lparr>x := x1 + fst (measureString env symb st),
                       style := ''function_fg'', text_rf := post\<rparr>;
            (rf', st') = render_line env c0 row
        in drawn st' = drawn (snd c0) @ [findent] @ (if pre = [] then [] else [fpre])
                         @ [fsym] @ (if post = [] then [] else [fpost])
           \<and> rf' = (if post = [] then fsym else fpost)))"
  by (rule conjI [OF function_cb_fragments conjI [OF function_row_callbacks function_row_fragments]])

theorem function_post_width_witness:
  "function_cb example_env (example_rf\<lparr>x := 112\<rparr>, new_renderer) (''function '', ''main'', ''()'')
     = (example_rf\<lparr>x := 216, style := ''function_fg'', text_rf := ''()''\<rparr>,
        \<lparr>m_commentcolumn = 0,
         drawn = [example_rf\<lparr>x := 112, style := ''function_fg'', text_rf := ''function ''\<rparr>,
                  example_rf\<lparr>x := 184, style := ''function_fg'', text_rf := ''main''\<rparr>,
                  example_rf\<lparr>x := 216, style := ''function_fg'', text_rf := ''()''\<rparr>],
         fontqueries = 2\<rparr>)
   \<and> function_cb example_env (example_rf\<lparr>x := 112\<rparr>, new_renderer) (''function '', ''main'', [])
     = (example_rf\<lparr>x := 184, style := ''function_fg'', text_rf := ''main''\<rparr>,
        \<lparr>m_commentcolumn = 0,
         drawn = [example_rf\<lparr>x := 112, style := ''function_fg'', text_rf := ''function ''\<rparr>,
                  example_rf\<lparr>x := 184, style := ''function_fg'', text_rf := ''main''\<rparr>],
         fontqueries = 1\<rparr>)
   \<and> map (\<lambda>f. (x f, y f, style f, text_rf f))
        (drawn (snd (render_line example_env (render_start example_env 7 new_renderer) (2, 2))))
     = [(0, 32, [], ''              ''), (112, 32, ''function_fg'', ''function ''),
        (184, 32, ''function_fg'', ''main''), (216, 32, ''function_fg'', ''()'')]
   \<and> x (fst (render_line example_env (render_start example_env 7 new_renderer) (2, 2))) = 216
   \<and> map (\<lambda>f. (x f, text_rf f))
        (drawn (snd (render_line (example_env\<lparr>printer_function := \<lambda>s. [([], ''main'', [])]\<rparr>)
           (render_start example_env 7 new_renderer) (2, 2))))
     = [(0, ''              ''), (112, ''main'')]
   \<and> x (fst (render_line (example_env\<lparr>printer_function := \<lambda>s. [([], ''main'', [])]\<rparr>)
           (render_start example_env 7 new_renderer) (2, 2))) = 112"
proof -
  note t = function_post_width [where rf = "example_rf\<lparr>x := 112\<rparr>" and pre = "''function ''"
      and env = example_env and st = new_renderer and symb = "''main''" and post = "''()''"
      and row = "(2, 2)" and ?c0.0 = "render_start example_env 7 new_renderer"]
  note u = function_post_width [where rf = "example_rf\<lparr>x := 112\<rparr>" and pre = "''function ''"
      and env = example_env and st = new_renderer and symb = "''main''" and post = "[]"
      and row = "(2, 2)" and ?c0.0 = "render_start example_env 7 new_renderer"]
  note v = function_post_width [where rf = "example_rf\<lparr>x := 112\<rparr>" and pre = "[]"
      and env = "example_env\<lparr>printer_function := \<lambda>s. [([], ''main'', [])]\<rparr>"
      and st = new_renderer and symb = "''main''" and post = "[]"
      and row = "(2, 2)" and ?c0.0 = "render_start example_env 7 new_renderer"]
  have kinds: "\<not> item_is (itemAt example_env (snd (2 :: size_t, 2 :: size_t))) (SegmentItem example_env)
      \<and> item_is (itemAt example_env (snd (2 :: size_t, 2 :: size_t))) (FunctionItem example_env)"
    by (simp add: item_is_def example_env_simps)
  have parts: "printer_function example_env
      (doc_symbol example_env (address (itemAt example_env (snd (2 :: size_t, 2 :: size_t)))))
      = [(''function '', ''main'', ''()'')]"
    by (simp add: example_env_simps)
  from t u v kinds parts show ?thesis
    by (simp add: run_defs)
qed

subsection \<open>Font queries of a call\<close>

text \<open>
  Claim C6, as the code has it: \<^verbatim>\<open>render\<close> itself asks the backend for the font's
  measures once, before the first row; every call of \<^verbatim>\<open>measureString\<close> while a row is
  laid out asks again. A call of \<^verbatim>\<open>render\<close> makes one query and one more for each string
  it measures: none on a segment row or a row of unknown kind, the indent and the
  non-empty \<open>pre\<close> and \<open>post\<close> parts on a function row, the address, the indent, the
  mnemonic and every operand on an instruction row.
\<close>

theorem font_queries_counted:
  "fontqueries (snd (render_start env ud st)) = fontqueries st + 1
   \<and> fontqueries (snd (measureString env s st)) = fontqueries st + 1
   \<and> fontqueries (snd (render_line env c row)) = fontqueries (snd c) + measured_on_row env row
   \<and> fontqueries (render env start count ud st)
       = fontqueries st + 1
         + sum_list (map (measured_on_row env) (render_rows (doc_size env) start count))"
  by (simp add: fq_render fq_render_line measureString_eq render_start_def fontUnit_def)

text \<open>
  The claim as stated (one query in a call) fails: rendering the one instruction row of
  \<^verbatim>\<open>mov eax, 0x5\<close> asks the backend six times.
\<close>

theorem font_queries_not_once:
  "fontqueries (new_renderer :: real ListingRenderer) = 0
   \<and> fontqueries (render example_env 3 1 7 new_renderer) = 6"
  by (simp add: run_defs)

theorem font_queries_counted_witness:
  "fontqueries (snd (render_start example_env 7 new_renderer)) = 1
   \<and> fontqueries (snd (measureString example_env ''mov '' new_renderer)) = 1
   \<and> fontqueries (snd (render_line example_env (render_start example_env 7 new_renderer)
         (0, 3))) = 6
   \<and> fontqueries (render example_env 0 5 7 new_renderer) = 12
   \<and> map (measured_on_row example_env) (render_rows (doc_size example_env) 0 5) = [0, 0, 3, 5, 3]
   \<and> fontqueries (render example_env 0 2 7 new_renderer) = 1"
  using font_queries_counted [where env = example_env and start = 0 and count = 5 and ud = 7
      and st = new_renderer and s = "''mov ''"
      and c = "render_start example_env 7 new_renderer" and row = "(0, 3)"]
    font_queries_counted [where env = example_env and start = 0 and count = 2 and ud = 7
      and st = new_renderer and s = "''mov ''"
      and c = "render_start example_env 7 new_renderer" and row = "(0, 3)"]
  by (simp add: measured_on_row_def run_defs)

subsection \<open>Rows of unknown kind\<close>

lemma render_start_simps:
  "style (fst (render_start env ud st)) = []"
  "drawn (snd (render_start env ud st)) = drawn st"
  by (simp_all add: render_start_def fontUnit_def)

lemma style_render_lines:
  "style (fst (foldl (render_line env) (render_start env ud st) rows))
     = last_style [] (drawn_since (length (drawn st))
         (snd (foldl (render_line env) (render_start env ud st) rows)))"
  using follows_render_lines [of "render_start env ud st" env rows]
  by (simp add: follows_def Let_def render_start_simps)

lemma unknown_row:
  assumes "\<not> item_is (itemAt env (snd row)) (SegmentItem env)"
    and "\<not> item_is (itemAt env (snd row)) (FunctionItem env)"
    and "\<not> item_is (itemAt env (snd row)) (InstructionItem env)"
  shows "drawn (snd (render_line env c row))
     = drawn (snd c) @ [(fst c)\<lparr>x := 0, y := of_nat (unat (fst row)) * fontheight (fst c),
          text_rf := ''Unknown Type: '' @ to_string (kind (itemAt env (snd row)))\<rparr>]"
  using assms
  by (cases c, cases row) (simp add: render_line_def row_cursor_def renderText_def Let_def)

text \<open>
  Claim C9, as the code has it: for an item that is neither a segment, a function nor an
  instruction, the row draws exactly one fragment, at x = 0 and the row's y, with the text
  \<^verbatim>\<open>Unknown Type: \<close> and the decimal kind. Its style is the style the cursor has: the
  style of the fragment drawn last in this call, whatever that is (empty after an indent
  or after a mnemonic or operand drawn without a style), and the empty style when
  nothing was drawn before in this call. The model has no failing branch, as the code
  has none.
\<close>

theorem unknown_kind_fragment:
  assumes "\<not> item_is (itemAt env (snd row)) (SegmentItem env)"
    and "\<not> item_is (itemAt env (snd row)) (FunctionItem env)"
    and "\<not> item_is (itemAt env (snd row)) (InstructionItem env)"
  shows "(let c = foldl (render_line env) (render_start env ud st) rows
     in drawn (snd (render_line env c row))
          = drawn (snd c) @ [(fst c)\<lparr>x := 0, y := of_nat (unat (fst row)) * fontheight (fst c),
              text_rf := ''Unknown Type: '' @ to_string (kind (itemAt env (snd row)))\<rparr>]
        \<and> style (fst c) = last_style [] (drawn_since (length (drawn st)) (snd c)))"
  using unknown_row [OF assms] style_render_lines [of env ud st rows]
  by (simp add: Let_def)

text \<open>
  The claim as stated (a default style) fails: after a segment row, the fragment of the
  line of kind 99 has the style \<^verbatim>\<open>segment_fg\<close>.
\<close>

theorem unknown_kind_inherits_style:
  "kind (itemAt example_env 1) = 99
   \<and> map (\<lambda>f. (style f, text_rf f)) (drawn (render example_env 0 2 7 new_renderer))
     = [(''segment_fg'', ''segment text''), (''segment_fg'', ''Unknown Type: 99'')]"
  by (simp add: run_defs)

theorem unknown_kind_fragment_witness:
  "drawn (snd (render_line example_env
       (foldl (render_line example_env) (render_start example_env 7 new_renderer) [(0, 0)]) (1, 1)))
     = [\<lparr>x = 0, y = 0, fontwidth = 8, fontheight = 16, style = ''segment_fg'',
         text_rf = ''segment text'', userdata = 7\<rparr>,
        \<lparr>x = 0, y = 16, fontwidth = 8, fontheight = 16, style = ''segment_fg'',
         text_rf = ''Unknown Type: 99'', userdata = 7\<rparr>]
   \<and> drawn (snd (render_line example_env (render_start example_env 7 new_renderer) (0, 1)))
     = [\<lparr>x = 0, y = 0, fontwidth = 8, fontheight = 16, style = [],
         text_rf = ''Unknown Type: 99'', userdata = 7\<rparr>]
   \<and> map (\<lambda>f. (style f, text_rf f))
        (drawn (snd (render_line
           (example_env\<lparr>doc_instruction := \<lambda>a. \<lparr>mnemonic = ''db'', flags = {}, comments = []\<rparr>\<rparr>)
           (foldl (render_line
              (example_env\<lparr>doc_instruction := \<lambda>a. \<lparr>mnemonic = ''db'', flags = {}, comments = []\<rparr>\<rparr>))
              (render_start example_env 7 new_renderer) [(0, 4)])
           (1, 1))))
     = [(''address_fg'', ''unk:00500000''), ([], ''  ''), ([], ''db ''),
        ([], ''Unknown Type: 99'')]"
proof -
  define env2 where "env2 = example_env\<lparr>doc_instruction :=
    \<lambda>a. \<lparr>mnemonic = ''db'', flags = {}, comments = []\<rparr>\<rparr>"
  have k2: "\<not> item_is (itemAt env2 (snd (1 :: size_t, 1 :: size_t))) (SegmentItem env2)"
    "\<not> item_is (itemAt env2 (snd (1 :: size_t, 1 :: size_t))) (FunctionItem env2)"
    "\<not> item_is (itemAt env2 (snd (1 :: size_t, 1 :: size_t))) (InstructionItem env2)"
    by (simp_all add: env2_def item_is_def example_env_simps)
  have s2: "render_start env2 7 new_renderer = render_start example_env 7 new_renderer"
    by (simp add: env2_def render_start_def fontUnit_def example_env_simps)
  from unknown_kind_fragment [OF k2, of 7 new_renderer "[(0, 4)]"]
  have third: "map (\<lambda>f. (style f, text_rf f))
        (drawn (snd (render_line env2
           (foldl (render_line env2) (render_start example_env 7 new_renderer) [(0, 4)]) (1, 1))))
     = [(''address_fg'', ''unk:00500000''), ([], ''  ''), ([], ''db ''),
        ([], ''Unknown Type: 99'')]"
    by (simp add: s2) (simp add: env2_def run_defs)
  have k: "\<not> item_is (itemAt example_env (snd (1 :: size_t, 1 :: size_t))) (SegmentItem example_env)"
    "\<not> item_is (itemAt example_env (snd (1 :: size_t, 1 :: size_t))) (FunctionItem example_env)"
    "\<not> item_is (itemAt example_env (snd (1 :: size_t, 1 :: size_t))) (InstructionItem example_env)"
    by (simp_all add: item_is_def example_env_simps)
  have k0: "\<not> item_is (itemAt example_env (snd (0 :: size_t, 1 :: size_t))) (SegmentItem example_env)"
    "\<not> item_is (itemAt example_env (snd (0 :: size_t, 1 :: size_t))) (FunctionItem example_env)"
    "\<not> item_is (itemAt example_env (snd (0 :: size_t, 1 :: size_t))) (InstructionItem example_env)"
    by (simp_all add: item_is_def example_env_simps)
  from unknown_kind_fragment [OF k, of 7 new_renderer "[(0, 0)]"]
    unknown_kind_fragment [OF k0, of 7 new_renderer "[]"]
  have "drawn (snd (render_line example_env
       (foldl (render_line example_env) (render_start example_env 7 new_renderer) [(0, 0)]) (1, 1)))
     = [\<lparr>x = 0, y = 0, fontwidth = 8, fontheight = 16, style = ''segment_fg'',
         text_rf = ''segment text'', userdata = 7\<rparr>,
        \<lparr>x = 0, y = 16, fontwidth = 8, fontheight = 16, style = ''segment_fg'',
         text_rf = ''Unknown Type: 99'', userdata = 7\<rparr>]
   \<and> drawn (snd (render_line example_env (render_start example_env 7 new_renderer) (0, 1)))
     = [\<lparr>x = 0, y = 0, fontwidth = 8, fontheight = 16, style = [],
         text_rf = ''Unknown Type: 99'', userdata = 7\<rparr>]"
    by (simp add: run_defs)
  with third show ?thesis
    by (simp add: env2_def)
qed

subsection \<open>Inherited styles\<close>

lemma last_name_append: "last_name s (ss @ ts) = last_name (last_name s ss) ts"
  by (simp add: last_name_def)

lemma draws_iff:
  "draws c d ss \<longleftrightarrow>
     (\<exists>ys. drawn (snd d) = drawn (snd c) @ ys \<and> map style ys = ss
        \<and> style (fst d) = last_name (style (fst c)) ss)"
proof
  assume f: "draws c d ss"
  define ys where "ys = drop (length (drawn (snd c))) (drawn (snd d))"
  have "drawn (snd d) = take (length (drawn (snd c))) (drawn (snd d)) @ ys"
    by (simp add: ys_def)
  with f have "drawn (snd d) = drawn (snd c) @ ys"
    by (simp add: draws_def Let_def)
  moreover from f have "map style ys = ss" and "style (fst d) = last_name (style (fst c)) ss"
    by (simp_all add: draws_def Let_def drawn_since_def ys_def)
  ultimately show "\<exists>ys. drawn (snd d) = drawn (snd c) @ ys \<and> map style ys = ss
        \<and> style (fst d) = last_name (style (fst c)) ss"
    by blast
next
  assume "\<exists>ys. drawn (snd d) = drawn (snd c) @ ys \<and> map style ys = ss
        \<and> style (fst d) = last_name (style (fst c)) ss"
  then show "draws c d ss"
    by (auto simp add: draws_def Let_def drawn_since_def)
qed

lemma draws_refl: "draws c c []"
  by (simp add: draws_def drawn_since_def last_name_def)

lemma draws_trans:
  assumes "draws c d ss" and "draws d e ts"
  shows "draws c e (ss @ ts)"
proof -
  from assms(1) obtain ys where ys: "drawn (snd d) = drawn (snd c) @ ys" "map style ys = ss"
    "style (fst d) = last_name (style (fst c)) ss"
    unfolding draws_iff by blast
  from assms(2) obtain zs where zs: "drawn (snd e) = drawn (snd d) @ zs" "map style zs = ts"
    "style (fst e) = last_name (style (fst d)) ts"
    unfolding draws_iff by blast
  have "drawn (snd e) = drawn (snd c) @ (ys @ zs)"
    by (simp add: ys zs)
  moreover have "map style (ys @ zs) = ss @ ts"
    by (simp add: ys zs)
  moreover have "style (fst e) = last_name (style (fst c)) (ss @ ts)"
    by (simp add: last_name_append ys zs)
  ultimately show ?thesis
    unfolding draws_iff by blast
qed

lemma draws_style: "draws c d ss \<Longrightarrow> style (fst d) = last_name (style (fst c)) ss"
  by (simp add: draws_def Let_def)

lemma draws_styles: "draws c d ss \<Longrightarrow> map style (drawn_since (length (drawn (snd c))) (snd d)) = ss"
  by (simp add: draws_def Let_def)

lemma draws_foldl:
  assumes "\<And>d a. draws d (f d a) (g (style (fst d)) a)"
  shows "draws c (foldl f c xs) (thread_styles g (style (fst c)) xs)"
proof (induction xs arbitrary: c)
  case Nil
  show ?case by (simp add: draws_refl)
next
  case (Cons a xs)
  have 1: "draws c (f c a) (g (style (fst c)) a)"
    by (rule assms)
  have "draws (f c a) (foldl f (f c a) xs) (thread_styles g (style (fst (f c a))) xs)"
    by (rule Cons.IH)
  with draws_style [OF 1]
  have "draws (f c a) (foldl f (f c a) xs)
      (thread_styles g (last_name (style (fst c)) (g (style (fst c)) a)) xs)"
    by simp
  with 1 show ?case
    by (simp add: draws_trans)
qed

lemma thread_styles_const: "thread_styles (\<lambda>s a. h a) s xs = concat (map h xs)"
  by (induction xs arbitrary: s) simp_all

lemma mnemonic_style_inherit:
  "mnemonic_style instruction old = inherit (first_match style_priority instruction) old"
  by (simp add: mnemonic_style_def style_priority_def inherit_def)

lemma operand_style_inherit: "operand_style operand old = inherit (typed_style operand) old"
  by (simp add: operand_style_def typed_style_def inherit_def)

lemmas draws_defs = draws_def drawn_since_def last_name_def

lemma draws_segment_cb: "draws c (segment_cb c line) [''segment_fg'']"
  by (cases c) (simp add: draws_defs step_defs)

lemma draws_function_cb: "draws c (function_cb env c parts) (function_styles parts)"
  by (cases c, cases parts) (simp add: draws_defs step_defs function_styles_def)

lemma draws_operand_cb: "draws c (operand_cb env c out) (operand_styles (style (fst c)) out)"
  by (cases c, cases out)
     (simp add: draws_defs step_defs operand_styles_def operand_style_inherit)

lemma draws_renderIndent: "draws c (renderIndent env n c) [[]]"
  by (cases c) (simp add: draws_defs step_defs)

lemma draws_renderAddressIndent: "draws c (renderAddressIndent env item c) [[]]"
  by (cases c) (simp add: draws_defs step_defs)

lemma draws_renderAddress: "draws c (renderAddress env item c) [''address_fg'', []]"
  by (cases c) (simp add: draws_defs step_defs)

lemma draws_renderMnemonic:
  "draws c (renderMnemonic env instruction c)
     [inherit (first_match style_priority instruction) (style (fst c))]"
  by (cases c) (simp add: draws_defs step_defs mnemonic_style_inherit)

lemma draws_renderComments: "draws c (renderComments env instruction c) [''comment_fg'']"
  by (cases c) (simp add: draws_defs step_defs)

lemma draws_renderSegment:
  "draws c (renderSegment env item c)
     (map (\<lambda>line. ''segment_fg'') (printer_segment env (doc_segment env (address item))))"
proof -
  have "draws c (renderSegment env item c)
      (thread_styles (\<lambda>s line. [''segment_fg'']) (style (fst c))
         (printer_segment env (doc_segment env (address item))))"
    unfolding renderSegment_def by (rule draws_foldl) (rule draws_segment_cb)
  then show ?thesis
    by (simp add: thread_styles_const concat_map_singleton)
qed

lemma draws_renderFunction:
  "draws c (renderFunction env item c)
     ([] # concat (map function_styles (printer_function env (doc_symbol env (address item)))))"
proof -
  have "draws (renderAddressIndent env item c) (renderFunction env item c)
      (thread_styles (\<lambda>s parts. function_styles parts)
         (style (fst (renderAddressIndent env item c)))
         (printer_function env (doc_symbol env (address item))))"
    unfolding renderFunction_def by (rule draws_foldl) (rule draws_function_cb)
  with draws_trans [OF draws_renderAddressIndent] show ?thesis
    by (fastforce simp add: thread_styles_const)
qed

lemma draws_renderOperands:
  "draws c (renderOperands env instruction c)
     (thread_styles operand_styles (style (fst c)) (printer_out env instruction))"
  unfolding renderOperands_def by (rule draws_foldl) (rule draws_operand_cb)

lemma draws_renderInstruction:
  "draws c (renderInstruction env item c)
     (instruction_styles env (doc_instruction env (address item)))"
proof -
  define instruction where "instruction = doc_instruction env (address item)"
  define m where "m = inherit (first_match style_priority instruction) []"
  define d1 where "d1 = renderAddress env item c"
  define d2 where "d2 = renderMnemonic env instruction d1"
  define d3 where "d3 = renderOperands env instruction d2"
  have a: "draws c d1 [''address_fg'', []]"
    unfolding d1_def by (rule draws_renderAddress)
  then have s1: "style (fst d1) = []"
    by (simp add: draws_def Let_def last_name_def)
  have b: "draws d1 d2 [m]"
    using draws_renderMnemonic [of d1 env instruction] by (simp add: d2_def m_def s1)
  then have s2: "style (fst d2) = m"
    by (simp add: draws_def Let_def last_name_def)
  have o: "draws d2 d3 (thread_styles operand_styles m (printer_out env instruction))"
    using draws_renderOperands [of d2 env instruction] by (simp add: d3_def s2)
  from draws_trans [OF a draws_trans [OF b o]]
  have 3: "draws c d3 ([''address_fg'', [], m]
      @ thread_styles operand_styles m (printer_out env instruction))"
    by simp
  obtain rf st where d3: "d3 = (rf, st)"
    by (cases d3)
  define st1 where "st1 = (if x rf > of_int (m_commentcolumn st)
    then st\<lparr>m_commentcolumn := to_integer (x rf)\<rparr> else st)"
  have "draws (rf, st) (rf, st1) []"
    by (simp add: draws_defs st1_def)
  with 3 have 4: "draws c (rf, st1) ([''address_fg'', [], m]
      @ thread_styles operand_styles m (printer_out env instruction))"
    using draws_trans d3 by fastforce
  have x: "instruction_x env item c = (rf, st)"
    by (simp add: instruction_x_def Let_def d3 [symmetric] d3_def d2_def d1_def instruction_def)
  show ?thesis
  proof (cases "comments instruction = []")
    case True
    with 4 show ?thesis
      by (simp add: renderInstruction_def Let_def x st1_def instruction_styles_def
          instruction_def [symmetric] m_def)
  next
    case False
    with draws_trans [OF 4 draws_renderComments [of "(rf, st1)" env instruction]] show ?thesis
      by (simp add: renderInstruction_def Let_def x st1_def instruction_styles_def
          instruction_def [symmetric] m_def)
  qed
qed

lemma draws_render_line: "draws c (render_line env c row) (row_styles env (style (fst c)) row)"
proof -
  obtain rf1 st where r: "row_cursor c row = (rf1, st)"
    by (cases "row_cursor c row")
  have 0: "draws c (rf1, st) []"
    using r by (cases c, cases row) (auto simp add: draws_defs row_cursor_def)
  then have s: "style rf1 = style (fst c)"
    by (simp add: draws_def Let_def last_name_def)
  have u: "draws (rf1, st)
     (rf1\<lparr>text_rf := ''Unknown Type: '' @ to_string (kind (itemAt env (snd row)))\<rparr>,
      renderText (rf1\<lparr>text_rf := ''Unknown Type: '' @ to_string (kind (itemAt env (snd row)))\<rparr>) st)
     [style (fst c)]"
    by (simp add: draws_defs renderText_def s)
  have "draws (rf1, st) (render_line env c row) (row_styles env (style (fst c)) row)"
    using u
    by (simp add: render_line_def row_styles_def Let_def r draws_renderSegment
        draws_renderFunction draws_renderInstruction)
  with draws_trans [OF 0] show ?thesis
    by fastforce
qed

lemma draws_render_lines:
  "draws c (foldl (render_line env) c rows) (thread_styles (row_styles env) (style (fst c)) rows)"
  by (rule draws_foldl) (rule draws_render_line)

lemma styles_render:
  "map style (drawn_since (length (drawn st)) (render env start count ud st))
     = thread_styles (row_styles env) [] (render_rows (doc_size env) start count)"
  using draws_styles [OF draws_render_lines [of "render_start env ud st" env
        "render_rows (doc_size env) start count"]]
  by (simp add: render_def render_cursor_def render_start_simps)

lemma follows_take:
  assumes "follows c d" and "n + k \<le> length (drawn (snd c))"
  shows "take k (drawn_since n (snd d)) = take k (drawn_since n (snd c))"
proof -
  from assms(1) obtain ys where "drawn (snd d) = drawn (snd c) @ ys"
    unfolding follows_iff by blast
  with assms(2) show ?thesis
    by (simp add: drawn_since_def)
qed

lemma styles_rows:
  "(let d = foldl (render_line env) (render_start env ud st) rows;
        fs = drawn_since (length (drawn st)) (snd d)
    in style (fst d) = last_style [] fs
       \<and> map style fs = thread_styles (row_styles env) [] rows)"
  using style_render_lines [of env ud st rows]
    draws_styles [OF draws_render_lines [of "render_start env ud st" env rows]]
  by (simp add: Let_def render_start_simps)

lemma style_unknown_row:
  "\<not> item_is (itemAt env (snd row)) (SegmentItem env)
      \<and> \<not> item_is (itemAt env (snd row)) (FunctionItem env)
      \<and> \<not> item_is (itemAt env (snd row)) (InstructionItem env)
   \<longrightarrow> map style (drawn_since (length (drawn (snd c))) (snd (render_line env c row)))
           = [style (fst c)]
         \<and> style (fst (render_line env c row)) = style (fst c)"
  by (cases c, cases row)
     (simp add: render_line_def row_cursor_def renderText_def drawn_since_def Let_def)

lemma style_plain_mnemonic:
  "\<not> isInvalid instruction \<and> \<not> instruction_is instruction Stop
      \<and> \<not> instruction_is instruction Nop \<and> \<not> instruction_is instruction Call
      \<and> \<not> instruction_is instruction Jump
   \<longrightarrow> map style (drawn_since (length (drawn (snd c)))
         (snd (renderMnemonic env instruction c))) = [style (fst c)]"
  by (cases c) (simp add: step_defs drawn_since_def mnemonic_style_def)

lemma styles_instruction_row:
  "map style (take 3 (drawn_since (length (drawn (snd c))) (snd (renderInstruction env item c))))
     = [''address_fg'', [], mnemonic_style (doc_instruction env (address item)) []]"
proof -
  define d where "d = renderMnemonic env (doc_instruction env (address item))
    (renderAddress env item c)"
  have "length (drawn (snd c)) + 3 \<le> length (drawn (snd d))"
    by (cases c) (simp add: d_def step_defs)
  moreover have "follows d (renderInstruction env item c)"
    unfolding d_def by (rule follows_after_mnemonic)
  ultimately have "take 3 (drawn_since (length (drawn (snd c))) (snd (renderInstruction env item c)))
      = take 3 (drawn_since (length (drawn (snd c))) (snd d))"
    by (simp add: follows_take)
  moreover have "map style (take 3 (drawn_since (length (drawn (snd c))) (snd d)))
      = [''address_fg'', [], mnemonic_style (doc_instruction env (address item)) []]"
    by (cases c) (simp add: d_def step_defs drawn_since_def)
  ultimately show ?thesis
    by simp
qed

lemma styles_plain_instruction_row:
  "\<not> isInvalid (doc_instruction env (address item))
      \<and> \<not> instruction_is (doc_instruction env (address item)) Stop
      \<and> \<not> instruction_is (doc_instruction env (address item)) Nop
      \<and> \<not> instruction_is (doc_instruction env (address item)) Call
      \<and> \<not> instruction_is (doc_instruction env (address item)) Jump
   \<longrightarrow> map style (take 3 (drawn_since (length (drawn (snd c)))
           (snd (renderInstruction env item c)))) = [''address_fg'', [], []]"
  by (simp add: styles_instruction_row mnemonic_style_def)

lemma style_renderIndent:
  "map style (drawn_since (length (drawn (snd c))) (snd (renderIndent env n c))) = [[]]"
  by (cases c) (simp add: step_defs drawn_since_def)

lemma style_renderAddressIndent:
  "map style (drawn_since (length (drawn (snd c))) (snd (renderAddressIndent env item c))) = [[]]"
  by (cases c) (simp add: step_defs drawn_since_def)

lemma style_separator:
  "0 < index operand
   \<longrightarrow> take 1 (map style (drawn_since (length (drawn (snd c)))
           (snd (operand_cb env c (operand, opsize, opstr))))) = [[]]"
  by (cases c) (simp add: step_defs drawn_since_def)

lemma style_plain_operand:
  "\<not> 0 < index operand \<and> \<not> isNumeric operand
      \<and> \<not> operand_is operand Displacement \<and> \<not> operand_is operand Register
   \<longrightarrow> map style (drawn_since (length (drawn (snd c)))
           (snd (operand_cb env c (operand, opsize, opstr)))) = [style (fst c)]"
  by (cases c) (simp add: step_defs drawn_since_def operand_style_def)

text \<open>
  Claim C10, as the code has it. The cursor's style is never reset between rows or
  fragments of a call: after any rows it is the style of the last fragment drawn in the
  call (empty before the first), and the styles of the fragments of a row, of any rows
  and of a whole call are those of \<open>row_styles\<close>, passed on from row to row. Routine by
  routine: a segment line is drawn with \<^verbatim>\<open>segment_fg\<close>, the parts of a function with
  \<^verbatim>\<open>function_fg\<close>, the address with \<^verbatim>\<open>address_fg\<close>, the comment with \<^verbatim>\<open>comment_fg\<close>,
  a mnemonic with the style of its first matching flag and an operand with the style
  of its type; the two indents and the operands' separator are drawn with the empty
  style, and no other routine clears it. A row of unknown kind, a mnemonic that matches
  no flag and a first operand of no styled type are drawn with the cursor's style as it
  is. On an instruction row the mnemonic that matches no flag follows the indent, so
  its style is empty (the styles of the row's first fragments are \<^verbatim>\<open>address_fg\<close>,
  empty, empty).
\<close>

theorem style_inheritance:
  "(let d = foldl (render_line env) (render_start env ud st) rows;
        fs = drawn_since (length (drawn st)) (snd d)
    in style (fst d) = last_style [] fs
       \<and> map style fs = thread_styles (row_styles env) [] rows)
   \<and> (\<not> item_is (itemAt env (snd row)) (SegmentItem env)
        \<and> \<not> item_is (itemAt env (snd row)) (FunctionItem env)
        \<and> \<not> item_is (itemAt env (snd row)) (InstructionItem env)
      \<longrightarrow> map style (drawn_since (length (drawn (snd c))) (snd (render_line env c row)))
            = [style (fst c)]
          \<and> style (fst (render_line env c row)) = style (fst c))
   \<and> (\<not> isInvalid instruction \<and> \<not> instruction_is instruction Stop
        \<and> \<not> instruction_is instruction Nop \<and> \<not> instruction_is instruction Call
        \<and> \<not> instruction_is instruction Jump
      \<longrightarrow> map style (drawn_since (length (drawn (snd c)))
              (snd (renderMnemonic env instruction c))) = [style (fst c)])
   \<and> (\<not> isInvalid (doc_instruction env (address item))
        \<and> \<not> instruction_is (doc_instruction env (address item)) Stop
        \<and> \<not> instruction_is (doc_instruction env (address item)) Nop
        \<and> \<not> instruction_is (doc_instruction env (address item)) Call
        \<and> \<not> instruction_is (doc_instruction env (address item)) Jump
      \<longrightarrow> map style (take 3 (drawn_since (length (drawn (snd c)))
              (snd (renderInstruction env item c)))) = [''address_fg'', [], []])
   \<and> (\<not> 0 < index operand \<and> \<not> isNumeric operand
        \<and> \<not> operand_is operand Displacement \<and> \<not> operand_is operand Register
      \<longrightarrow> map style (drawn_since (length (drawn (snd c)))
              (snd (operand_cb env c (operand, opsize, opstr)))) = [style (fst c)])
   \<and> map style (drawn_since (length (drawn (snd c))) (snd (renderIndent env n c))) = [[]]
   \<and> map style (drawn_since (length (drawn (snd c))) (snd (renderAddressIndent env item c)))
       = [[]]
   \<and> (0 < index operand
      \<longrightarrow> take 1 (map style (drawn_since (length (drawn (snd c)))
              (snd (operand_cb env c (operand, opsize, opstr))))) = [[]])
   \<and> map style (drawn_since (length (drawn (snd c))) (snd (segment_cb c line)))
       = [''segment_fg'']
   \<and> map style (drawn_since (length (drawn (snd c))) (snd (function_cb env c parts)))
       = function_styles parts
   \<and> map style (drawn_since (length (drawn (snd c))) (snd (renderAddress env item c)))
       = [''address_fg'', []]
   \<and> map style (drawn_since (length (drawn (snd c))) (snd (renderMnemonic env instruction c)))
       = [inherit (first_match style_priority instruction) (style (fst c))]
   \<and> map style (drawn_since (length (drawn (snd c))) (snd (operand_cb env c out)))
       = operand_styles (style (fst c)) out
   \<and> map style (drawn_since (length (drawn (snd c))) (snd (renderComments env instruction c)))
       = [''comment_fg'']
   \<and> map style (drawn_since (length (drawn (snd c))) (snd (render_line env c row)))
       = row_styles env (style (fst c)) row
   \<and> style (fst (render_line env c row)) = last_name (style (fst c)) (row_styles env (style (fst c)) row)
   \<and> map style (drawn_since (length (drawn st)) (render env start count ud st))
       = thread_styles (row_styles env) [] (render_rows (doc_size env) start count)"
  by (rule conjI [OF styles_rows conjI [OF style_unknown_row conjI [OF style_plain_mnemonic
      conjI [OF styles_plain_instruction_row conjI [OF style_plain_operand
      conjI [OF style_renderIndent conjI [OF style_renderAddressIndent
      conjI [OF style_separator conjI [OF draws_styles [OF draws_segment_cb]
      conjI [OF draws_styles [OF draws_function_cb] conjI [OF draws_styles [OF draws_renderAddress]
      conjI [OF draws_styles [OF draws_renderMnemonic] conjI [OF draws_styles [OF draws_operand_cb]
      conjI [OF draws_styles [OF draws_renderComments] conjI [OF draws_styles [OF draws_render_line]
      conjI [OF draws_style [OF draws_render_line] styles_render]]]]]]]]]]]]]]]])

text \<open>
  The claim as stated (a mnemonic that matches no flag has the style \<^verbatim>\<open>address_fg\<close> of
  the address) fails: \<^verbatim>\<open>mov\<close> has no flag and is drawn with the empty style.
\<close>

theorem plain_mnemonic_not_address_style:
  "flags example_mov = {}
   \<and> map (\<lambda>f. (style f, text_rf f)) (take 3 (drawn (render example_env 3 1 7 new_renderer)))
     = [(''address_fg'', ''text:00401000''), ([], ''  ''), ([], ''mov '')]"
  by (simp add: run_defs)

theorem style_inheritance_witness:
  "style (fst (foldl (render_line example_env) (render_start example_env 7 new_renderer) [(0, 0)]))
     = ''segment_fg''
   \<and> map style (drawn_since 1 (snd (render_line example_env
         (foldl (render_line example_env) (render_start example_env 7 new_renderer) [(0, 0)])
         (1, 1)))) = [''segment_fg'']
   \<and> map style (drawn_since 1 (snd (renderMnemonic example_env example_mov
         (foldl (render_line example_env) (render_start example_env 7 new_renderer) [(0, 0)]))))
       = [''segment_fg'']
   \<and> map style (take 3 (drawn_since 1 (snd (renderInstruction example_env
         \<lparr>kind = 3, address = 0x401000\<rparr>
         (foldl (render_line example_env) (render_start example_env 7 new_renderer) [(0, 0)])))))
       = [''address_fg'', [], []]
   \<and> map style (drawn_since 1 (snd (operand_cb example_env
         (foldl (render_line example_env) (render_start example_env 7 new_renderer) [(0, 0)])
         (\<lparr>index = 0, optypes = {}, numeric = False\<rparr>, [], ''eax'')))) = [''segment_fg'']
   \<and> take 1 (map style (drawn_since 1 (snd (operand_cb example_env
         (foldl (render_line example_env) (render_start example_env 7 new_renderer) [(0, 0)])
         (\<lparr>index = 1, optypes = {}, numeric = False\<rparr>, [], ''ebx''))))) = [[]]
   \<and> map style (drawn_since 0 (render example_env 0 5 7 new_renderer))
       = [''segment_fg'', ''segment_fg'', [], ''function_fg'', ''function_fg'', ''function_fg'',
          ''address_fg'', [], [], ''register_fg'', [], ''immediate_fg'', ''comment_fg'',
          ''address_fg'', [], ''instruction_stop'']"
proof -
  define c0 where "c0 = foldl (render_line example_env)
    (render_start example_env 7 new_renderer) [(0, 0)]"
  have c0: "c0 = (\<lparr>x = 0, y = 0, fontwidth = 8, fontheight = 16, style = ''segment_fg'',
         text_rf = ''segment text'', userdata = 7\<rparr>,
       \<lparr>m_commentcolumn = 0,
        drawn = [\<lparr>x = 0, y = 0, fontwidth = 8, fontheight = 16, style = ''segment_fg'',
          text_rf = ''segment text'', userdata = 7\<rparr>],
        fontqueries = 1\<rparr>)"
    by (simp add: c0_def run_defs)
  have kinds: "\<not> item_is (itemAt example_env (snd (1 :: size_t, 1 :: size_t))) (SegmentItem example_env)
      \<and> \<not> item_is (itemAt example_env (snd (1 :: size_t, 1 :: size_t))) (FunctionItem example_env)
      \<and> \<not> item_is (itemAt example_env (snd (1 :: size_t, 1 :: size_t))) (InstructionItem example_env)"
    by (simp add: item_is_def example_env_simps)
  have plain: "\<not> isInvalid example_mov \<and> \<not> instruction_is example_mov Stop
      \<and> \<not> instruction_is example_mov Nop \<and> \<not> instruction_is example_mov Call
      \<and> \<not> instruction_is example_mov Jump"
    by (simp add: isInvalid_def instruction_is_def example_mov_def)
  have ins: "doc_instruction example_env (address \<lparr>kind = 3, address = 0x401000\<rparr>) = example_mov"
    by (simp add: example_env_simps)
  have op0: "\<not> 0 < index \<lparr>index = 0, optypes = {}, numeric = False\<rparr>
      \<and> \<not> isNumeric \<lparr>index = 0, optypes = {}, numeric = False\<rparr>
      \<and> \<not> operand_is \<lparr>index = 0, optypes = {}, numeric = False\<rparr> Displacement
      \<and> \<not> operand_is \<lparr>index = 0, optypes = {}, numeric = False\<rparr> Register"
    by (simp add: isNumeric_def operand_is_def)
  have op1: "0 < index \<lparr>index = 1, optypes = {}, numeric = False\<rparr>"
    by simp
  note t = style_inheritance [where env = example_env and ud = 7 and st = new_renderer and rows = "[(0, 0)]"
      and row = "(1, 1)" and c = c0 and instruction = example_mov
      and item = "\<lparr>kind = 3, address = 0x401000\<rparr>"
      and operand = "\<lparr>index = 0, optypes = {}, numeric = False\<rparr>"
      and opsize = "[]" and opstr = "''eax''" and n = 1
      and start = 0 and count = 5 and line = "''segment text''"
      and parts = "(''function '', ''main'', ''()'')"
      and out = "(\<lparr>index = 1, optypes = {Register}, numeric = False\<rparr>, [], ''ebx'')"]
  note u = style_inheritance [where env = example_env and ud = 7 and st = new_renderer and rows = "[(0, 0)]"
      and row = "(1, 1)" and c = c0 and instruction = example_mov
      and item = "\<lparr>kind = 3, address = 0x401000\<rparr>"
      and operand = "\<lparr>index = 1, optypes = {}, numeric = False\<rparr>"
      and opsize = "[]" and opstr = "''ebx''" and n = 1
      and start = 0 and count = 5 and line = "''segment text''"
      and parts = "(''function '', ''main'', ''()'')"
      and out = "(\<lparr>index = 1, optypes = {Register}, numeric = False\<rparr>, [], ''ebx'')"]
  have len: "length (drawn (snd c0)) = 1" and sty: "style (fst c0) = ''segment_fg''"
    by (simp_all add: c0)
  have rows: "render_rows 5 0 5 = [(0, 0), (1, 1), (2, 2), (3, 3), (4, 4)]"
    by (simp add: render_rows_def loop_rows.simps Let_def)
  from t have "map style (drawn_since (length (drawn (new_renderer :: real ListingRenderer)))
        (render example_env 0 5 7 new_renderer))
      = thread_styles (row_styles example_env) [] (render_rows (doc_size example_env) 0 5)"
    by simp
  then have call: "map style (drawn_since 0 (render example_env 0 5 7 new_renderer))
       = [''segment_fg'', ''segment_fg'', [], ''function_fg'', ''function_fg'', ''function_fg'',
          ''address_fg'', [], [], ''register_fg'', [], ''immediate_fg'', ''comment_fg'',
          ''address_fg'', [], ''instruction_stop'']"
    by (simp add: rows row_styles_def instruction_styles_def operand_styles_def
        function_styles_def typed_style_def inherit_def last_name_def style_priority_def
        item_is_def isInvalid_def instruction_is_def operand_is_def isNumeric_def
        example_env_simps example_mov_def example_ret_def new_renderer_def)
  from t kinds plain ins op0 u op1 call show ?thesis
    unfolding c0_def [symmetric] by (simp add: len sty)
qed

end
